theory Spec2Isabelle
  imports Main "HOL-Library.Sublist"
begin

section \<open>JavaScript values used by the hooks\<close>

text \<open>
  A JavaScript string is a sequence of 16-bit code units; the model keeps the code units
  below 256, as a list of 8-bit characters. Tool parameters (\<open>block.params\<close>,
  \<open>block.nativeArgs\<close>) are maps from keys to strings; \<open>None\<close> stands for both
  \<open>undefined\<close> and \<open>null\<close>, which the source never tells apart (it only uses
  \<open>??\<close>, \<open>||\<close> and \<open>!\<close> on them).
\<close>

type_synonym params = "string \<rightharpoonup> string"

text \<open>\<open>a ?? b\<close>: the left operand unless it is null or undefined.\<close>

definition nullish :: "'a option \<Rightarrow> 'a option \<Rightarrow> 'a option" where
  "nullish a b = (case a of Some x \<Rightarrow> Some x | None \<Rightarrow> b)"

text \<open>Truthiness of an optional string: undefined, null and the empty string are falsy.\<close>

definition truthy :: "string option \<Rightarrow> bool" where
  "truthy a = (case a of Some s \<Rightarrow> s \<noteq> [] | None \<Rightarrow> False)"

text \<open>\<open>a || b\<close>: the left operand when it is truthy.\<close>

definition or_else :: "string option \<Rightarrow> string option \<Rightarrow> string option" where
  "or_else a b = (if truthy a then a else b)"

text \<open>\<open>nativeArgs?.k\<close>: the field of the typed argument view, when there is a view.\<close>

definition native_get :: "params option \<Rightarrow> string \<Rightarrow> string option" where
  "native_get na k = (case na of None \<Rightarrow> None | Some m \<Rightarrow> m k)"

record ToolUse =
  name :: string
  params :: params
  nativeArgs :: "params option"

record Task =
  taskId :: string
  activeIntentId :: "string option"
  modelId :: string

record HookContext =
  task :: Task
  block :: ToolUse
  toolCallId :: string

record HookResult =
  blocked :: bool
  errorMessage :: "string option"
  transformedBlock :: "ToolUse option"

definition pass :: HookResult where
  "pass = \<lparr>blocked = False, errorMessage = None, transformedBlock = None\<rparr>"

definition block_with :: "string \<Rightarrow> HookResult" where
  "block_with msg = \<lparr>blocked = True, errorMessage = Some msg, transformedBlock = None\<rparr>"

text \<open>Exceptions a hook can raise (a rejected promise).\<close>

datatype exn = SyntaxError | TypeError | HostError


section \<open>CommandClassifier.ts\<close>

definition SAFE_TOOLS :: "string list" where
  "SAFE_TOOLS =
    [''read_file'', ''list_files'', ''search_files'', ''codebase_search'',
     ''ask_followup_question'', ''attempt_completion'', ''read_command_output'',
     ''select_active_intent'', ''update_todo_list'']"

definition DESTRUCTIVE_TOOLS :: "string list" where
  "DESTRUCTIVE_TOOLS =
    [''write_to_file'', ''apply_diff'', ''edit'', ''search_and_replace'', ''search_replace'',
     ''edit_file'', ''apply_patch'', ''execute_command'', ''use_mcp_tool'',
     ''access_mcp_resource'', ''switch_mode'', ''new_task'', ''generate_image'',
     ''run_slash_command'', ''skill'']"

datatype CommandClass = SAFE | DESTRUCTIVE | UNKNOWN

definition classifyCommand :: "string \<Rightarrow> CommandClass" where
  "classifyCommand toolName =
    (if toolName \<in> set SAFE_TOOLS then SAFE
     else if toolName \<in> set DESTRUCTIVE_TOOLS then DESTRUCTIVE
     else UNKNOWN)"


subsection \<open>JSON.stringify on the rejection object\<close>

text \<open>
  \<open>QuoteJSONString\<close> of ECMAScript: the double quote and the backslash are escaped, the
  control characters below 0x20 are written \<open>\b \t \n \f \r\<close> or \<open>\u00xx\<close> (lower-case
  hexadecimal), every other character stands for itself.
\<close>

abbreviation DQ :: char where "DQ \<equiv> CHR 0x22"
abbreviation BS :: char where "BS \<equiv> CHR 0x5C"

definition hexdigit :: "nat \<Rightarrow> char" where
  "hexdigit n = ''0123456789abcdef'' ! n"

definition json_escape :: "char \<Rightarrow> string" where
  "json_escape c =
    (if c = DQ then [BS, DQ]
     else if c = BS then [BS, BS]
     else if c = CHR 0x08 then [BS, CHR ''b'']
     else if c = CHR 0x09 then [BS, CHR ''t'']
     else if c = CHR 0x0A then [BS, CHR ''n'']
     else if c = CHR 0x0C then [BS, CHR ''f'']
     else if c = CHR 0x0D then [BS, CHR ''r'']
     else if (of_char c :: nat) < 32
       then [BS, CHR ''u'', CHR ''0'', CHR ''0'',
             hexdigit (of_char c div 16), hexdigit (of_char c mod 16)]
     else [c])"

definition json_quote :: "string \<Rightarrow> string" where
  "json_quote s = DQ # concat (map json_escape s) @ [DQ]"

text \<open>A member value of the rejection object: a string, or \<open>null\<close>.\<close>

definition json_value :: "string option \<Rightarrow> string" where
  "json_value v = (case v of None \<Rightarrow> ''null'' | Some s \<Rightarrow> json_quote s)"

text \<open>One member of an object printed with indent 2: two spaces, the key, \<open>": "\<close>, the value.\<close>

definition json_member :: "string \<times> string option \<Rightarrow> string" where
  "json_member kv = ''  '' @ json_quote (fst kv) @ '': '' @ json_value (snd kv)"

fun json_members :: "(string \<times> string option) list \<Rightarrow> string" where
  "json_members [] = []"
| "json_members [kv] = json_member kv"
| "json_members (kv # kvs) = json_member kv @ '',\<newline>'' @ json_members kvs"

text \<open>\<open>JSON.stringify(obj, null, 2)\<close> for a non-empty object of string and null members.\<close>

definition json_stringify2 :: "(string \<times> string option) list \<Rightarrow> string" where
  "json_stringify2 kvs = ''{\<newline>'' @ json_members kvs @ ''\<newline>}''"

record RejectionParams =
  code :: string
  message :: string
  toolName :: string
  intentId :: "string option"
  recoveryHint :: "string option"

definition default_recovery_hint :: string where
  "default_recovery_hint =
    ''Please try a different approach that does not require this action, ask the user for guidance, or request scope expansion via select_active_intent.''"

definition rejection_object :: "RejectionParams \<Rightarrow> (string \<times> string option) list" where
  "rejection_object p =
    [(''error'', Some ''TOOL_REJECTED''),
     (''code'', Some (code p)),
     (''tool'', Some (toolName p)),
     (''intent_id'', nullish (intentId p) None),
     (''message'', Some (message p)),
     (''recovery_hint'', nullish (recoveryHint p) (Some default_recovery_hint))]"

definition buildRejectionError :: "RejectionParams \<Rightarrow> string" where
  "buildRejectionError p = json_stringify2 (rejection_object p)"


subsection \<open>JSON.parse on an object of strings and nulls\<close>

text \<open>
  The reader of the rejection payload: \<open>JSON.parse\<close> on a text that is an object whose
  members are strings or \<open>null\<close>. It answers \<open>None\<close> on a text that \<open>JSON.parse\<close>
  rejects, and also on JSON outside this fragment (numbers, arrays, nested objects, an
  escape \<open>\uXXXX\<close> beyond the 8-bit characters). The members come in the order of the
  text.
\<close>

definition unhex :: "char \<Rightarrow> nat option" where
  "unhex c =
    (let n = (of_char c :: nat)
     in if 48 \<le> n \<and> n \<le> 57 then Some (n - 48)
        else if 97 \<le> n \<and> n \<le> 102 then Some (n - 87)
        else if 65 \<le> n \<and> n \<le> 70 then Some (n - 55)
        else None)"

definition unescape :: "char \<Rightarrow> char option" where
  "unescape e =
    (if e = DQ then Some DQ
     else if e = BS then Some BS
     else if e = CHR ''/'' then Some (CHR ''/'')
     else if e = CHR ''b'' then Some (CHR 0x08)
     else if e = CHR ''f'' then Some (CHR 0x0C)
     else if e = CHR ''n'' then Some (CHR 0x0A)
     else if e = CHR ''r'' then Some (CHR 0x0D)
     else if e = CHR ''t'' then Some (CHR 0x09)
     else None)"

definition push :: "char \<Rightarrow> (string \<times> string) option \<Rightarrow> (string \<times> string) option" where
  "push c r = (case r of None \<Rightarrow> None | Some (s, t) \<Rightarrow> Some (c # s, t))"

fun parse_string_body :: "string \<Rightarrow> (string \<times> string) option" where
  "parse_string_body [] = None"
| "parse_string_body (c # cs) =
    (if c = DQ then Some ([], cs)
     else if c = BS then
       (case cs of
          [] \<Rightarrow> None
        | e # r \<Rightarrow>
            if e = CHR ''u'' then
              (case r of
                 a # b # c' # d # r' \<Rightarrow>
                   (case (unhex a, unhex b, unhex c', unhex d) of
                      (Some x1, Some x2, Some x3, Some x4) \<Rightarrow>
                        (let n = ((x1 * 16 + x2) * 16 + x3) * 16 + x4
                         in if n < 256 then push (char_of n) (parse_string_body r') else None)
                    | _ \<Rightarrow> None)
               | _ \<Rightarrow> None)
            else (case unescape e of
                    Some ch \<Rightarrow> push ch (parse_string_body r)
                  | None \<Rightarrow> None))
     else if (of_char c :: nat) < 32 then None
     else push c (parse_string_body cs))"

definition json_ws :: "char \<Rightarrow> bool" where
  "json_ws c = (c = CHR 0x20 \<or> c = CHR 0x09 \<or> c = CHR 0x0A \<or> c = CHR 0x0D)"

definition skip_ws :: "string \<Rightarrow> string" where
  "skip_ws s = dropWhile json_ws s"

definition parse_value :: "string \<Rightarrow> (string option \<times> string) option" where
  "parse_value s =
    (case s of
       [] \<Rightarrow> None
     | c # r \<Rightarrow>
         if c = DQ then (case parse_string_body r of None \<Rightarrow> None | Some (v, t) \<Rightarrow> Some (Some v, t))
         else if take 4 s = ''null'' then Some (None, drop 4 s)
         else None)"

fun parse_members :: "nat \<Rightarrow> string \<Rightarrow> (string \<times> string option) list option" where
  "parse_members 0 s = None"
| "parse_members (Suc n) s =
    (case skip_ws s of
       [] \<Rightarrow> None
     | q # r \<Rightarrow>
         if q \<noteq> DQ then None
         else (case parse_string_body r of
                 None \<Rightarrow> None
               | Some (k, r1) \<Rightarrow>
                   (case skip_ws r1 of
                      [] \<Rightarrow> None
                    | colon # r2 \<Rightarrow>
                        if colon \<noteq> CHR '':'' then None
                        else (case parse_value (skip_ws r2) of
                                None \<Rightarrow> None
                              | Some (v, r3) \<Rightarrow>
                                  (case skip_ws r3 of
                                     [] \<Rightarrow> None
                                   | sep # r4 \<Rightarrow>
                                       if sep = CHR '','' then map_option (Cons (k, v)) (parse_members n r4)
                                       else if sep = CHR ''}'' \<and> skip_ws r4 = [] then Some [(k, v)]
                                       else None)))))"

definition JSON_parse :: "string \<Rightarrow> (string \<times> string option) list option" where
  "JSON_parse s =
    (case skip_ws s of
       [] \<Rightarrow> None
     | c # r \<Rightarrow>
         if c \<noteq> CHR ''{'' then None
         else (case skip_ws r of
                 [] \<Rightarrow> None
               | c' # r' \<Rightarrow>
                   if c' = CHR ''}'' then (if skip_ws r' = [] then Some [] else None)
                   else parse_members (length s) r))"


text \<open>\<open>JSON.parse(payload)[k]\<close> when it is a string; a later member of the same key wins.\<close>

definition rejection_field :: "string \<Rightarrow> string \<Rightarrow> string option" where
  "rejection_field payload k =
    (case JSON_parse payload of
       None \<Rightarrow> None
     | Some obj \<Rightarrow> (case map_of (rev obj) k of Some (Some v) \<Rightarrow> Some v | _ \<Rightarrow> None))"


section \<open>HookEngine.ts\<close>








section \<open>Regular expressions: \<open>RegExp.prototype.test\<close>\<close>

text \<open>
  The regular expressions of the sources use character classes, literal text,
  alternation, optional groups, \<open>*\<close> and \<open>+\<close> on a character class, and the assertions
  \<open>^\<close> and \<open>$\<close>. None carries the \<open>g\<close> flag, so \<open>test\<close> has no state: it answers whether
  the pattern matches at some position of the input.
\<close>

datatype cls = Lit char | OneOf "char list" | NoneOf "char list" | Space | Word | Dot

text \<open>Line terminators and white space of ECMAScript, among the 8-bit characters.\<close>

definition line_terminator :: "char \<Rightarrow> bool" where
  "line_terminator c = (c = CHR 0x0A \<or> c = CHR 0x0D)"

definition white_space :: "char \<Rightarrow> bool" where
  "white_space c =
    (c = CHR 0x09 \<or> c = CHR 0x0A \<or> c = CHR 0x0B \<or> c = CHR 0x0C \<or> c = CHR 0x0D \<or>
     c = CHR 0x20 \<or> c = CHR 0xA0)"

definition word_char :: "char \<Rightarrow> bool" where
  "word_char c =
    (let n = (of_char c :: nat)
     in (48 \<le> n \<and> n \<le> 57) \<or> (65 \<le> n \<and> n \<le> 90) \<or> n = 95 \<or> (97 \<le> n \<and> n \<le> 122))"

fun cls_match :: "cls \<Rightarrow> char \<Rightarrow> bool" where
  "cls_match (Lit a) c = (c = a)"
| "cls_match (OneOf as) c = (c \<in> set as)"
| "cls_match (NoneOf as) c = (c \<notin> set as)"
| "cls_match Space c = white_space c"
| "cls_match Word c = word_char c"
| "cls_match Dot c = (\<not> line_terminator c)"

text \<open>
  \<open>Bol\<close> and \<open>Eol\<close> are \<open>^\<close> and \<open>$\<close> under the \<open>m\<close> flag (start or end of a line);
  \<open>Bos\<close> and \<open>Eos\<close> are \<open>^\<close> and \<open>$\<close> without it (start or end of the input).
\<close>

datatype rx =
    Atom cls | Star cls | Plus cls | Seq rx rx | Alt rx rx | Opt rx | Eps
  | Bol | Eol | Bos | Eos

text \<open>
  A position in the input: the character before it (none at the start) and the rest of
  the input. \<open>ends r k\<close> lists the positions where a match of \<open>r\<close> that starts at \<open>k\<close> can
  end; backtracking finds a match exactly when there is one.
\<close>

type_synonym pos = "char option \<times> string"

fun star_ends :: "cls \<Rightarrow> char option \<Rightarrow> string \<Rightarrow> pos list" where
  "star_ends c p [] = [(p, [])]"
| "star_ends c p (x # xs) =
     (p, x # xs) # (if cls_match c x then star_ends c (Some x) xs else [])"

fun ends :: "rx \<Rightarrow> pos \<Rightarrow> pos list" where
  "ends (Atom c) (p, s) =
     (case s of [] \<Rightarrow> [] | x # xs \<Rightarrow> if cls_match c x then [(Some x, xs)] else [])"
| "ends (Star c) (p, s) = star_ends c p s"
| "ends (Plus c) (p, s) =
     (case s of [] \<Rightarrow> [] | x # xs \<Rightarrow> if cls_match c x then star_ends c (Some x) xs else [])"
| "ends (Seq a b) k = concat (map (ends b) (ends a k))"
| "ends (Alt a b) k = ends a k @ ends b k"
| "ends (Opt a) k = ends a k @ [k]"
| "ends Eps k = [k]"
| "ends Bol (p, s) =
     (case p of None \<Rightarrow> [(p, s)] | Some c \<Rightarrow> if line_terminator c then [(p, s)] else [])"
| "ends Eol (p, s) =
     (case s of [] \<Rightarrow> [(p, s)] | x # xs \<Rightarrow> if line_terminator x then [(p, s)] else [])"
| "ends Bos (p, s) = (case p of None \<Rightarrow> [(p, s)] | Some c \<Rightarrow> [])"
| "ends Eos (p, s) = (case s of [] \<Rightarrow> [(p, s)] | x # xs \<Rightarrow> [])"

fun search :: "rx \<Rightarrow> char option \<Rightarrow> string \<Rightarrow> bool" where
  "search r p [] = (ends r (p, []) \<noteq> [])"
| "search r p (x # xs) = (ends r (p, x # xs) \<noteq> [] \<or> search r (Some x) xs)"

definition rx_test :: "rx \<Rightarrow> string \<Rightarrow> bool" where
  "rx_test r s = search r None s"

text \<open>Literal text, a sequence of terms, and an alternation of at least one term.\<close>

fun lit :: "string \<Rightarrow> rx" where
  "lit [] = Eps"
| "lit (c # cs) = Seq (Atom (Lit c)) (lit cs)"

fun seqs :: "rx list \<Rightarrow> rx" where
  "seqs [] = Eps"
| "seqs (r # rs) = Seq r (seqs rs)"

fun alts :: "rx \<Rightarrow> rx list \<Rightarrow> rx" where
  "alts r [] = r"
| "alts r (x # xs) = Alt r (alts x xs)"


section \<open>MutationClassifier.ts\<close>

datatype MutationClass = AST_REFACTOR | INTENT_EVOLUTION

text \<open>
  The four refactor signals, in the order of the source:
  \<^verbatim>\<open>/^[-+]\s*(const|let|var|function|class|interface|type|export)\s+\w+\s*=/m\<close>,
  \<^verbatim>\<open>/^\s*$/m\<close>, \<^verbatim>\<open>/^[-+]\s*import\s+/m\<close>, \<^verbatim>\<open>/^[-+]\s*(\/\/|\/\*|\*)/m\<close>.
\<close>

definition REFACTOR_PATTERNS :: "rx list" where
  "REFACTOR_PATTERNS =
    [seqs [Bol, Atom (OneOf ''-+''), Star Space,
           alts (lit ''const'') [lit ''let'', lit ''var'', lit ''function'', lit ''class'',
                                 lit ''interface'', lit ''type'', lit ''export''],
           Plus Space, Plus Word, Star Space, Atom (Lit (CHR ''=''))],
     seqs [Bol, Star Space, Eol],
     seqs [Bol, Atom (OneOf ''-+''), Star Space, lit ''import'', Plus Space],
     seqs [Bol, Atom (OneOf ''-+''), Star Space, alts (lit ''//'') [lit ''/*'', lit ''*'']]]"

text \<open>
  The six evolution signals:
  \<^verbatim>\<open>/^\+\s*(async\s+)?function\s+\w+\s*\(/m\<close>,
  \<^verbatim>\<open>/^\+\s*(public|private|protected|static)?\s*(async\s+)?\w+\s*\([^)]*\)\s*[:{]/m\<close>,
  \<^verbatim>\<open>/^\+\s*(export\s+)?(class|interface)\s+\w+/m\<close>,
  \<^verbatim>\<open>/^\+\s*export\s+(const|let|function|class|default)/m\<close>,
  \<^verbatim>\<open>/^\+\s*(app|router)\.(get|post|put|delete|patch|use)\s*\(/m\<close>,
  \<^verbatim>\<open>/^\+\s*if\s*\(.+\)\s*\{/m\<close>.
\<close>

definition EVOLUTION_PATTERNS :: "rx list" where
  "EVOLUTION_PATTERNS =
    [seqs [Bol, Atom (Lit (CHR ''+'')), Star Space, Opt (seqs [lit ''async'', Plus Space]),
           lit ''function'', Plus Space, Plus Word, Star Space, Atom (Lit (CHR ''(''))],
     seqs [Bol, Atom (Lit (CHR ''+'')), Star Space,
           Opt (alts (lit ''public'') [lit ''private'', lit ''protected'', lit ''static'']),
           Star Space, Opt (seqs [lit ''async'', Plus Space]), Plus Word, Star Space,
           Atom (Lit (CHR ''('')), Star (NoneOf '')''), Atom (Lit (CHR '')'')), Star Space,
           Atom (OneOf '':{'')],
     seqs [Bol, Atom (Lit (CHR ''+'')), Star Space, Opt (seqs [lit ''export'', Plus Space]),
           alts (lit ''class'') [lit ''interface''], Plus Space, Plus Word],
     seqs [Bol, Atom (Lit (CHR ''+'')), Star Space, lit ''export'', Plus Space,
           alts (lit ''const'') [lit ''let'', lit ''function'', lit ''class'', lit ''default'']],
     seqs [Bol, Atom (Lit (CHR ''+'')), Star Space, alts (lit ''app'') [lit ''router''],
           Atom (Lit (CHR ''.'')),
           alts (lit ''get'') [lit ''post'', lit ''put'', lit ''delete'', lit ''patch'', lit ''use''],
           Star Space, Atom (Lit (CHR ''(''))],
     seqs [Bol, Atom (Lit (CHR ''+'')), Star Space, lit ''if'', Star Space,
           Atom (Lit (CHR ''('')), Plus Dot, Atom (Lit (CHR '')'')), Star Space,
           Atom (Lit (CHR ''{''))]]"

text \<open>
  \<open>explicitClass\<close> is whatever the tool call carried as \<open>mutation_class\<close>; \<open>isNewFile\<close> is
  optional, and only \<open>true\<close> is truthy.
\<close>

record MutationClassificationInput =
  explicitClass :: "string option"
  content :: string
  isNewFile :: "bool option"

definition classifyMutation :: "MutationClassificationInput \<Rightarrow> MutationClass" where
  "classifyMutation input =
    (if explicitClass input = Some ''AST_REFACTOR'' then AST_REFACTOR
     else if explicitClass input = Some ''INTENT_EVOLUTION'' then INTENT_EVOLUTION
     else if isNewFile input = Some True then INTENT_EVOLUTION
     else if list_ex (\<lambda>pattern. rx_test pattern (content input)) EVOLUTION_PATTERNS
       then INTENT_EVOLUTION
     else if 2 \<le> length (filter (\<lambda>p. rx_test p (content input)) REFACTOR_PATTERNS)
       then AST_REFACTOR
     else INTENT_EVOLUTION)"


section \<open>The host: file system, paths, digest, parsed YAML\<close>

text \<open>
  A path of the file system holds nothing, something that cannot be read as text (a
  directory, a file without permission), or a text file. \<open>fileExistsAtPath\<close> answers
  whether something is there; \<open>fs.readFile\<close> throws unless it is a readable file.
\<close>

datatype fnode = Absent | Unreadable | Text string

type_synonym filesystem = "string \<Rightarrow> fnode"

definition fileExistsAtPath :: "filesystem \<Rightarrow> string \<Rightarrow> bool" where
  "fileExistsAtPath fs p = (fs p \<noteq> Absent)"

definition readFile :: "filesystem \<Rightarrow> string \<Rightarrow> exn + string" where
  "readFile fs p = (case fs p of Text s \<Rightarrow> Inr s | Unreadable \<Rightarrow> Inl HostError | Absent \<Rightarrow> Inl HostError)"

text \<open>A value as \<open>yaml.parse\<close> returns it; a mapping keeps the order of its keys.\<close>

datatype yaml =
  YNull | YBool bool | YNum int | YStr string | YSeq "yaml list" | YMap "(string \<times> yaml) list"

text \<open>
  What the hooks take from outside the repository: the workspace root, Node's \<open>path\<close>
  module, the SHA-256 digest of \<open>crypto\<close> (as lower-case hexadecimal), the \<open>yaml\<close>
  package, and the identifier and clock used to stamp a trace entry.
\<close>

record host =
  workspaceRoot :: string
  path_isAbsolute :: "string \<Rightarrow> bool"
  path_join :: "string list \<Rightarrow> string"
  path_relative :: "string \<Rightarrow> string \<Rightarrow> string"
  sha256_hex :: "string \<Rightarrow> string"
  yaml_parse :: "string \<Rightarrow> exn + yaml"
  yaml_stringify :: "yaml \<Rightarrow> string"
  randomUUID :: string
  nowISO :: string

abbreviation SQ :: char where "SQ \<equiv> CHR 0x27"
abbreviation NL :: char where "NL \<equiv> CHR 0x0A"

text \<open>\<open>s.replace(/\\/g, "/")\<close>.\<close>

definition posix_slashes :: "string \<Rightarrow> string" where
  "posix_slashes s = map (\<lambda>c. if c = BS then CHR ''/'' else c) s"

text \<open>\<open>s.split("\n")\<close>: never empty; the empty string gives one empty piece.\<close>

fun split_on :: "char \<Rightarrow> string \<Rightarrow> string list" where
  "split_on d [] = [[]]"
| "split_on d (x # xs) =
     (if x = d then [] # split_on d xs
      else (case split_on d xs of [] \<Rightarrow> [[x]] | l # ls \<Rightarrow> (x # l) # ls))"

text \<open>\<open>s.trim()\<close>: white space and line terminators are removed at both ends.\<close>

definition trim :: "string \<Rightarrow> string" where
  "trim s = rev (dropWhile white_space (rev (dropWhile white_space s)))"


section \<open>SpatialHasher.ts\<close>

definition hashContent :: "host \<Rightarrow> string \<Rightarrow> string" where
  "hashContent env txt = ''sha256:'' @ sha256_hex env txt"


section \<open>IntentGatekeeperHook.ts\<close>

definition sideEffectTools :: "string list" where
  "sideEffectTools =
    [''write_to_file'', ''apply_diff'', ''execute_command'', ''insert_content'',
     ''search_and_replace'', ''browser_action'', ''use_mcp_tool'', ''switch_mode'', ''new_task'']"

definition governance_error :: string where
  "governance_error =
    ''GOVERNANCE ERROR: You must call select_active_intent with a valid Intent ID before using any other tools. Please call select_active_intent first.''"

definition Gatekeeper_onPreExecute :: "HookContext \<Rightarrow> HookResult" where
  "Gatekeeper_onPreExecute context =
    (if name (block context) \<in> set sideEffectTools \<and> \<not> truthy (activeIntentId (task context))
     then block_with governance_error
     else pass)"


section \<open>OptimisticLockHook.ts\<close>

definition writeTools :: "string list" where
  "writeTools =
    [''write_to_file'', ''apply_diff'', ''edit'', ''search_and_replace'', ''search_replace'',
     ''edit_file'', ''apply_patch'']"

text \<open>\<open>nativeArgs?.expected_hash ?? params.expected_hash ?? null\<close>.\<close>

definition expected_hash_of :: "ToolUse \<Rightarrow> string option" where
  "expected_hash_of b =
    nullish (native_get (nativeArgs b) ''expected_hash'') (params b ''expected_hash'')"

text \<open>\<open>nativeArgs?.path ?? params.path ?? params.file_path ?? ""\<close>.\<close>

definition raw_path_of :: "ToolUse \<Rightarrow> string" where
  "raw_path_of b =
    (case nullish (native_get (nativeArgs b) ''path'')
            (nullish (params b ''path'') (params b ''file_path'')) of
       Some p \<Rightarrow> p | None \<Rightarrow> [])"

definition abs_path :: "host \<Rightarrow> string \<Rightarrow> string" where
  "abs_path env p = (if path_isAbsolute env p then p else path_join env [workspaceRoot env, p])"

definition rel_path :: "host \<Rightarrow> string \<Rightarrow> string" where
  "rel_path env p =
    (if path_isAbsolute env p then posix_slashes (path_relative env (workspaceRoot env) p)
     else p)"

definition stale_gone :: "string \<Rightarrow> string \<Rightarrow> RejectionParams" where
  "stale_gone tool rawFilePath =
    \<lparr>code = ''STALE_FILE'',
     message = ''File '' @ [SQ] @ rawFilePath @ [SQ] @
               '' no longer exists. Re-read to verify before writing.'',
     toolName = tool,
     intentId = None,
     recoveryHint = Some (''The file you expected to exist at '' @ [SQ] @ rawFilePath @ [SQ] @
       '' no longer exists. It may have been deleted by another agent. Check with read_file or list_files and update your approach.'')\<rparr>"

definition stale_modified :: "string \<Rightarrow> string \<Rightarrow> string \<Rightarrow> RejectionParams" where
  "stale_modified tool relPath currentHash =
    \<lparr>code = ''STALE_FILE'',
     message = ''File '' @ [SQ] @ relPath @ [SQ] @
               '' was modified since you last read it. Your version is stale.'',
     toolName = tool,
     intentId = None,
     recoveryHint = Some (''Re-read the file '' @ [SQ] @ relPath @ [SQ] @
       '' to get the latest content and its current hash, '' @
       ''then retry your write using the new content as the base. '' @
       ''The current hash is: '' @ currentHash)\<rparr>"

definition OptimisticLock_onPreExecute :: "host \<Rightarrow> filesystem \<Rightarrow> HookContext \<Rightarrow> HookResult" where
  "OptimisticLock_onPreExecute env fs context =
    (let b = block context in
     if name b \<notin> set writeTools then pass
     else if \<not> truthy (expected_hash_of b) then pass
     else
       (let expectedHash = (case expected_hash_of b of Some h \<Rightarrow> h | None \<Rightarrow> []);
            rawFilePath = raw_path_of b in
        if rawFilePath = [] then pass
        else if \<not> fileExistsAtPath fs (abs_path env rawFilePath) then
          (if expectedHash \<noteq> [] then block_with (buildRejectionError (stale_gone (name b) rawFilePath))
           else pass)
        else
          (case readFile fs (abs_path env rawFilePath) of
             Inl e \<Rightarrow> pass
           | Inr currentContent \<Rightarrow>
               (let currentHash = hashContent env currentContent in
                if currentHash \<noteq> expectedHash
                then block_with (buildRejectionError
                       (stale_modified (name b) (rel_path env rawFilePath) currentHash))
                else pass))))"


section \<open>AuthorizationHook.ts\<close>

text \<open>The two private fields of the hook: the cached bypass set and the path it was read from.\<close>

record auth_state =
  intentIgnoreCache :: "string list option"
  intentIgnorePath :: "string option"

definition fresh_auth :: auth_state where
  "fresh_auth = \<lparr>intentIgnoreCache = None, intentIgnorePath = None\<rparr>"

text \<open>The ids of a bypass file: each line trimmed, blank lines and \<open>#\<close> comments dropped.\<close>

definition parse_intentignore :: "string \<Rightarrow> string list" where
  "parse_intentignore raw =
    filter (\<lambda>trimmed. trimmed \<noteq> [] \<and> \<not> prefix ''#'' trimmed) (map trim (split_on NL raw))"

definition intentignore_path :: "host \<Rightarrow> string" where
  "intentignore_path env = path_join env [workspaceRoot env, ''.orchestration'', ''.intentignore'']"

definition loadIntentIgnore :: "host \<Rightarrow> filesystem \<Rightarrow> auth_state \<Rightarrow> string list \<times> auth_state" where
  "loadIntentIgnore env fs st =
    (let ignorePath = intentignore_path env;
         st1 = (if intentIgnorePath st \<noteq> Some ignorePath
                then \<lparr>intentIgnoreCache = None, intentIgnorePath = Some ignorePath\<rparr>
                else st) in
     case intentIgnoreCache st1 of
       Some cached \<Rightarrow> (cached, st1)
     | None \<Rightarrow>
         (let ignored =
               (if \<not> fileExistsAtPath fs ignorePath then []
                else (case readFile fs ignorePath of
                        Inl e \<Rightarrow> []
                      | Inr raw \<Rightarrow> parse_intentignore raw))
          in (ignored, st1\<lparr>intentIgnoreCache := Some ignored\<rparr>)))"

definition invalidateCache :: "auth_state \<Rightarrow> auth_state" where
  "invalidateCache st = st\<lparr>intentIgnoreCache := None\<rparr>"

definition fileHint :: "ToolUse \<Rightarrow> string" where
  "fileHint b =
    (case or_else (params b ''path'') (params b ''file_path'') of
       Some p \<Rightarrow> (if p \<noteq> [] then '' on '' @ [DQ] @ p @ [DQ] else [])
     | None \<Rightarrow> [])"

definition approval_message :: "string \<Rightarrow> ToolUse \<Rightarrow> string" where
  "approval_message activeId b =
    ''[Intent: '' @ activeId @ ''] Approve '' @ [DQ] @
    map (\<lambda>c. if c = CHR ''_'' then CHR '' '' else c) (name b) @ [DQ] @ fileHint b @ ''?''"

definition user_rejected :: "HookContext \<Rightarrow> RejectionParams" where
  "user_rejected context =
    \<lparr>code = ''USER_REJECTED_INTENT_EVOLUTION'',
     message = ''The developer rejected the tool call '' @ [DQ] @ name (block context) @ [DQ] @
               fileHint (block context) @ ''. Reconsider your approach.'',
     toolName = name (block context),
     intentId = activeIntentId (task context),
     recoveryHint = Some ''Pause and ask the user what they would like you to do differently, or try an alternative approach that achieves the same goal.''\<rparr>"

text \<open>
  The result of the hook, its fields afterwards, and the message of the modal dialog when
  one was shown. \<open>ui\<close> is the developer: the answer to \<open>showWarningMessage\<close>, \<open>None\<close> when
  the dialog is dismissed.
\<close>

definition Authorization_onPreExecute ::
  "host \<Rightarrow> filesystem \<Rightarrow> (string \<Rightarrow> string option) \<Rightarrow> auth_state \<Rightarrow> HookContext
     \<Rightarrow> HookResult \<times> auth_state \<times> string option" where
  "Authorization_onPreExecute env fs ui st context =
    (if classifyCommand (name (block context)) \<noteq> DESTRUCTIVE then (pass, st, None)
     else
       (let activeId = (case activeIntentId (task context) of
                          Some i \<Rightarrow> i | None \<Rightarrow> ''(no intent)'');
            (ignored, st') = loadIntentIgnore env fs st in
        if activeId \<in> set ignored then (pass, st', None)
        else
          (let message = approval_message activeId (block context);
               choice = ui message in
           if choice \<noteq> Some ''Approve''
           then (block_with (buildRejectionError (user_rejected context)), st', Some message)
           else (pass, st', Some message))))"


section \<open>ScopeEnforcementHook.ts: the scope matcher\<close>

text \<open>\<open>s.replace(/needle/g, rep)\<close> for a literal, non-empty needle: leftmost matches, no overlap.\<close>

fun replace_all :: "string \<Rightarrow> string \<Rightarrow> string \<Rightarrow> string" where
  "replace_all needle rep [] = []"
| "replace_all needle rep (c # cs) =
     (if needle \<noteq> [] \<and> prefix needle (c # cs)
      then rep @ replace_all needle rep (drop (length needle - 1) cs)
      else c # replace_all needle rep cs)"

text \<open>The characters of the class \<^verbatim>\<open>[.+^${}()|[\]\\]\<close>, each replaced by a backslash and itself.\<close>

definition escaped_meta :: "char list" where
  "escaped_meta = ''.+^${}()|[]'' @ [BS]"

definition escape_meta :: "string \<Rightarrow> string" where
  "escape_meta s = concat (map (\<lambda>c. if c \<in> set escaped_meta then [BS, c] else [c]) s)"

text \<open>The placeholder of the source, the section sign U+00A7 on both sides.\<close>

definition GLOBSTAR :: string where
  "GLOBSTAR = CHR 0xA7 # ''GLOBSTAR'' @ [CHR 0xA7]"

definition regexStr :: "string \<Rightarrow> string" where
  "regexStr normalizedPattern =
    replace_all GLOBSTAR ''.*''
      (replace_all ''*'' ''[^/]*''
        (replace_all ''**'' GLOBSTAR (escape_meta normalizedPattern)))"

text \<open>
  \<open>new RegExp(source)\<close>, for the sources that \<open>regexStr\<close> builds: an escaped syntax
  character, the class \<^verbatim>\<open>[^/]\<close>, the dot, \<open>^\<close> and \<open>$\<close>, a literal character, and the
  quantifiers \<open>*\<close>, \<open>+\<close>, \<open>?\<close>, each of which may carry a lazy \<open>?\<close>. A quantifier with
  nothing to repeat (at the start, after an assertion, after a quantifier that is
  already lazy) is a SyntaxError. Any other syntax is outside the fragment.
\<close>

datatype token = TAtom cls | TAssert rx | TStar | TPlus | TQuest | TOther

definition syntax_chars :: "char list" where
  "syntax_chars = ''^$.*+?()[]{}|/'' @ [BS]"

fun tokenize :: "string \<Rightarrow> token list" where
  "tokenize [] = []"
| "tokenize (c # cs) =
     (if c = BS then
        (case cs of
           [] \<Rightarrow> [TOther]
         | e # r \<Rightarrow> if e \<in> set syntax_chars then TAtom (Lit e) # tokenize r else [TOther])
      else if c = CHR ''['' then
        (case cs of
           a # b # d # r \<Rightarrow>
             if a = CHR ''^'' \<and> b = CHR ''/'' \<and> d = CHR '']'' then TAtom (NoneOf ''/'') # tokenize r
             else [TOther]
         | _ \<Rightarrow> [TOther])
      else if c = CHR ''.'' then TAtom Dot # tokenize cs
      else if c = CHR ''^'' then TAssert Bos # tokenize cs
      else if c = CHR ''$'' then TAssert Eos # tokenize cs
      else if c = CHR ''*'' then TStar # tokenize cs
      else if c = CHR ''+'' then TPlus # tokenize cs
      else if c = CHR ''?'' then TQuest # tokenize cs
      else if c \<in> set ''(){}|]'' then [TOther]
      else TAtom (Lit c) # tokenize cs)"

datatype compiled = Compiled rx | Invalid | Unmodelled

definition then_rx :: "rx \<Rightarrow> compiled \<Rightarrow> compiled" where
  "then_rx r k = (case k of Compiled r' \<Rightarrow> Compiled (Seq r r') | Invalid \<Rightarrow> Invalid | Unmodelled \<Rightarrow> Unmodelled)"

fun parse_terms :: "token list \<Rightarrow> compiled" where
  "parse_terms [] = Compiled Eps"
| "parse_terms (TOther # ts) = Unmodelled"
| "parse_terms (TStar # ts) = Invalid"
| "parse_terms (TPlus # ts) = Invalid"
| "parse_terms (TQuest # ts) = Invalid"
| "parse_terms (TAssert a # ts) = then_rx a (parse_terms ts)"
| "parse_terms (TAtom c # TStar # TQuest # ts) = then_rx (Star c) (parse_terms ts)"
| "parse_terms (TAtom c # TStar # ts) = then_rx (Star c) (parse_terms ts)"
| "parse_terms (TAtom c # TPlus # TQuest # ts) = then_rx (Plus c) (parse_terms ts)"
| "parse_terms (TAtom c # TPlus # ts) = then_rx (Plus c) (parse_terms ts)"
| "parse_terms (TAtom c # TQuest # TQuest # ts) = then_rx (Opt (Atom c)) (parse_terms ts)"
| "parse_terms (TAtom c # TQuest # ts) = then_rx (Opt (Atom c)) (parse_terms ts)"
| "parse_terms (TAtom c # ts) = then_rx (Atom c) (parse_terms ts)"

definition new_RegExp :: "string \<Rightarrow> compiled" where
  "new_RegExp source = parse_terms (tokenize source)"

text \<open>
  The shape of every source that \<open>regexStr\<close> builds, used to show that \<open>new_RegExp\<close>
  stays inside the fragment: escaped meta characters, characters that need no escape,
  and, once the stars are replaced (\<open>W True\<close>), the texts \<^verbatim>\<open>[^/]*\<close> and \<^verbatim>\<open>.*\<close>.
\<close>

inductive W :: "bool \<Rightarrow> string \<Rightarrow> bool" where
  W_nil: "W b []"
| W_esc: "W b s \<Longrightarrow> m \<in> set escaped_meta \<Longrightarrow> W b (BS # m # s)"
| W_ord: "W b s \<Longrightarrow> c \<notin> set escaped_meta \<Longrightarrow> W b (c # s)"
| W_cls: "W True s \<Longrightarrow> W True (CHR ''['' # CHR ''^'' # CHR ''/'' # CHR '']'' # CHR ''*'' # s)"
| W_dot: "W True s \<Longrightarrow> W True (CHR ''.'' # CHR ''*'' # s)"


text \<open>
  What a call of \<open>matchesScope\<close> does: it returns a boolean, or throws, or builds a
  regular expression outside the fragment above.
\<close>

datatype scope_outcome = Returns bool | Throws exn | OutsideFragment

definition matchesScope :: "string \<Rightarrow> string \<Rightarrow> scope_outcome" where
  "matchesScope filePath pattern =
    (let normalizedFile = posix_slashes filePath;
         normalizedPattern = posix_slashes pattern in
     if normalizedFile = normalizedPattern then Returns True
     else
       (case new_RegExp (''^'' @ regexStr normalizedPattern @ ''$'') of
          Invalid \<Rightarrow> Throws SyntaxError
        | Unmodelled \<Rightarrow> OutsideFragment
        | Compiled regex \<Rightarrow>
            if rx_test regex normalizedFile then Returns True
            else
              (let dirPattern = (if suffix ''/'' normalizedPattern then normalizedPattern
                                 else normalizedPattern @ ''/'') in
               if prefix dirPattern normalizedFile then Returns True else Returns False)))"


section \<open>IntentUpdateHook.ts\<close>



text \<open>Assigning a property: an existing key keeps its place, a new key goes last.\<close>

fun set_field :: "string \<Rightarrow> yaml \<Rightarrow> (string \<times> yaml) list \<Rightarrow> (string \<times> yaml) list" where
  "set_field k v [] = [(k, v)]"
| "set_field k v ((k', v') # kvs) =
     (if k' = k then (k, v) # kvs else (k', v') # set_field k v kvs)"







section \<open>TracePostHook.ts\<close>

definition mutatingTools :: "string list" where
  "mutatingTools =
    [''write_to_file'', ''apply_diff'', ''edit'', ''search_and_replace'', ''search_replace'',
     ''edit_file'', ''apply_patch'']"

record TraceRange =
  start_line :: nat
  end_line :: nat
  content_hash :: string
  mutation_class :: MutationClass

record TraceRelated =
  rel_type :: string
  rel_value :: string

record TraceContributor =
  entity_type :: string
  model_identifier :: string

record TraceConversation =
  url :: string
  contributor :: TraceContributor
  ranges :: "TraceRange list"
  related :: "TraceRelated list"

record TraceFile =
  relative_path :: string
  conversations :: "TraceConversation list"

record TraceEntry =
  entry_id :: string
  timestamp :: string
  vcs_revision_id :: string
  files :: "TraceFile list"

text \<open>\<open>s.split("\n").length\<close>.\<close>

definition line_count :: "string \<Rightarrow> nat" where
  "line_count s = length (split_on NL s)"

text \<open>
  The text to hash and the new-file flag. For \<open>write_to_file\<close> the flag is the answer of
  \<open>fileExistsAtPath\<close>, negated, in the file system that the post handler runs in.
\<close>

definition trace_content :: "host \<Rightarrow> filesystem \<Rightarrow> ToolUse \<Rightarrow> string \<Rightarrow> string \<times> bool" where
  "trace_content env fs b filePath =
    (if name b = ''write_to_file'' then
       ((case nullish (native_get (nativeArgs b) ''content'') (params b ''content'') of
           Some c \<Rightarrow> c | None \<Rightarrow> []),
        \<not> fileExistsAtPath fs (abs_path env filePath))
     else if truthy (params b ''diff'') then (the (params b ''diff''), False)
     else if truthy (params b ''new_string'') then (the (params b ''new_string''), False)
     else if truthy (params b ''patch'') then (the (params b ''patch''), False)
     else
       (if fileExistsAtPath fs (abs_path env filePath) then
          (case readFile fs (abs_path env filePath) of Inl e \<Rightarrow> ([], False) | Inr c \<Rightarrow> (c, False))
        else ([], False)))"

definition trace_related :: "HookContext \<Rightarrow> TraceRelated list" where
  "trace_related context =
    (let b = block context;
         explicitIntentId = nullish (native_get (nativeArgs b) ''intent_id'') (params b ''intent_id'') in
     \<lparr>rel_type = ''specification'', rel_value = the (activeIntentId (task context))\<rparr> #
     (if truthy explicitIntentId \<and> explicitIntentId \<noteq> activeIntentId (task context)
      then [\<lparr>rel_type = ''requirement'', rel_value = the explicitIntentId\<rparr>]
      else []))"

text \<open>
  The post handler, as the entry whose JSON line it appends to
  \<open>.orchestration/agent_trace.jsonl\<close>, or \<open>None\<close> when it returns before that.
\<close>

definition Trace_onPostExecute :: "host \<Rightarrow> filesystem \<Rightarrow> HookContext \<Rightarrow> TraceEntry option" where
  "Trace_onPostExecute env fs context =
    (let b = block context in
     if name b \<notin> set mutatingTools then None
     else if \<not> truthy (activeIntentId (task context)) then None
     else
       (let filePath = raw_path_of b in
        if filePath = [] then None
        else
          (let relativePath = posix_slashes (if path_isAbsolute env filePath
                                             then path_relative env (workspaceRoot env) filePath
                                             else filePath);
               (contentToHash, new_file) = trace_content env fs b filePath in
           if contentToHash = [] then None
           else
             (let mutationClass = classifyMutation
                    \<lparr>explicitClass = nullish (native_get (nativeArgs b) ''mutation_class'')
                                       (params b ''mutation_class''),
                     content = contentToHash,
                     isNewFile = Some new_file\<rparr>
              in Some
                   \<lparr>entry_id = randomUUID env,
                    timestamp = nowISO env,
                    vcs_revision_id = ''unavailable'',
                    files =
                      [\<lparr>relative_path = relativePath,
                        conversations =
                          [\<lparr>url = taskId (task context),
                            contributor = \<lparr>entity_type = ''AI'',
                                           model_identifier = modelId (task context)\<rparr>,
                            ranges =
                              [\<lparr>start_line = 1,
                                end_line = line_count contentToHash,
                                content_hash = hashContent env contentToHash,
                                mutation_class = mutationClass\<rparr>],
                            related = trace_related context\<rparr>]\<rparr>]\<rparr>))))"

text \<open>
  Modelled from the spec: the tool \<open>write_to_file\<close> itself is not part of the hook
  sources. Section 4.13 calls it a full-file write of the new content; here it leaves
  the given text at the target path and nothing else changes.
\<close>

definition write_to_file_effect :: "host \<Rightarrow> filesystem \<Rightarrow> ToolUse \<Rightarrow> filesystem" where
  "write_to_file_effect env fs b =
    fs(abs_path env (raw_path_of b) :=
         Text (case nullish (native_get (nativeArgs b) ''content'') (params b ''content'') of
                 Some c \<Rightarrow> c | None \<Rightarrow> []))"


text \<open>The id that the hook looks up in the bypass list.\<close>

definition lookup_id :: "HookContext \<Rightarrow> string" where
  "lookup_id ctx = (case activeIntentId (task ctx) of Some i \<Rightarrow> i | None \<Rightarrow> ''(no intent)'')"

text \<open>Destructive tools that are not in the list of the Gatekeeper.\<close>

definition gatekeeper_omitted :: "string list" where
  "gatekeeper_omitted =
    [''edit'', ''edit_file'', ''apply_patch'', ''generate_image'', ''run_slash_command'',
     ''skill'', ''access_mcp_resource'']"


section \<open>Example hooks\<close>







text \<open>Inputs of the mutation classifier, one for each rule of its priority order.\<close>

definition ex_explicit_refactor :: MutationClassificationInput where
  "ex_explicit_refactor =
    \<lparr>explicitClass = Some ''AST_REFACTOR'', content = ''+export function f() {}'',
     isNewFile = Some True\<rparr>"

definition ex_explicit_evolution :: MutationClassificationInput where
  "ex_explicit_evolution =
    \<lparr>explicitClass = Some ''INTENT_EVOLUTION'', content = ''- *todo*\<newline>'', isNewFile = None\<rparr>"

definition ex_new_file :: MutationClassificationInput where
  "ex_new_file = \<lparr>explicitClass = None, content = ''- *todo*\<newline>'', isNewFile = Some True\<rparr>"

definition ex_evolving :: MutationClassificationInput where
  "ex_evolving =
    \<lparr>explicitClass = None, content = ''+import a\<newline>+export const b = 1\<newline>'',
     isNewFile = Some False\<rparr>"

definition ex_bullets :: MutationClassificationInput where
  "ex_bullets = \<lparr>explicitClass = Some ''other'', content = ''- *todo*\<newline>'', isNewFile = None\<rparr>"

definition ex_plain :: MutationClassificationInput where
  "ex_plain = \<lparr>explicitClass = None, content = ''const x = 1 + 2'', isNewFile = None\<rparr>"

text \<open>
  A host for evaluating examples: POSIX paths under the root \<open>/ws\<close>, the identity in
  place of the digest, and a YAML reader that knows no document. The theorems hold for
  every host; only the examples use this one.
\<close>

definition ex_host :: host where
  "ex_host =
    \<lparr>workspaceRoot = ''/ws'',
     path_isAbsolute = (\<lambda>p. prefix ''/'' p),
     path_join = (\<lambda>ps. foldr (\<lambda>a b. if b = [] then a else a @ ''/'' @ b) ps []),
     path_relative = (\<lambda>from to. drop (Suc (length from)) to),
     sha256_hex = (\<lambda>s. s),
     yaml_parse = (\<lambda>s. Inl SyntaxError),
     yaml_stringify = (\<lambda>d. []),
     randomUUID = ''00000000-0000-4000-8000-000000000000'',
     nowISO = ''2026-01-01T00:00:00.000Z''\<rparr>"

definition ex_task :: Task where
  "ex_task = \<lparr>taskId = ''task-1'', activeIntentId = Some ''INT-001'', modelId = ''m''\<rparr>"

text \<open>A workspace with one file, \<open>/ws/src/a.ts\<close>, whose text is \<open>v2\<close>.\<close>

definition ex_fs :: filesystem where
  "ex_fs = (\<lambda>p. if p = ''/ws/src/a.ts'' then Text ''v2'' else Absent)"

text \<open>A write to \<open>src/a.ts\<close> that carries the given \<open>expected_hash\<close>.\<close>

definition ex_write :: "string \<Rightarrow> string option \<Rightarrow> HookContext" where
  "ex_write p h =
    \<lparr>task = ex_task,
     block = \<lparr>name = ''write_to_file'',
              params = [''path'' \<mapsto> p, ''content'' \<mapsto> ''v3''](''expected_hash'' := h),
              nativeArgs = None\<rparr>,
     toolCallId = ''call-1''\<rparr>"

text \<open>
  A workspace whose only file is the bypass list with the given text, an empty
  workspace, and three developers: one approves, one rejects, one dismisses the dialog.
\<close>

definition ex_fs_ignore :: "string \<Rightarrow> filesystem" where
  "ex_fs_ignore raw = (\<lambda>p. if p = ''/ws/.orchestration/.intentignore'' then Text raw else Absent)"

definition ex_fs_empty :: filesystem where
  "ex_fs_empty = (\<lambda>p. Absent)"

definition ui_approve :: "string \<Rightarrow> string option" where
  "ui_approve m = Some ''Approve''"

definition ui_reject :: "string \<Rightarrow> string option" where
  "ui_reject m = Some ''Reject''"

definition ui_dismiss :: "string \<Rightarrow> string option" where
  "ui_dismiss m = None"

text \<open>A call of the given tool on \<open>src/a.ts\<close> by a task with the given active intent.\<close>

definition ex_call :: "string \<Rightarrow> string option \<Rightarrow> HookContext" where
  "ex_call tool intent =
    \<lparr>task = \<lparr>taskId = ''task-1'', activeIntentId = intent, modelId = ''m''\<rparr>,
     block = \<lparr>name = tool, params = [''path'' \<mapsto> ''src/a.ts''], nativeArgs = None\<rparr>,
     toolCallId = ''call-1''\<rparr>"





text \<open>The mutation classes of the ranges of a trace entry.\<close>

definition entry_classes :: "TraceEntry \<Rightarrow> MutationClass list" where
  "entry_classes e = map mutation_class (concat (map ranges (concat (map conversations (files e)))))"

text \<open>A \<open>write_to_file\<close> call by intent INT-001 that creates a Markdown note.\<close>

definition ex_new_note :: HookContext where
  "ex_new_note =
    \<lparr>task = ex_task,
     block = \<lparr>name = ''write_to_file'',
              params = [''path'' \<mapsto> ''notes.md'', ''content'' \<mapsto> ''- *todo*\<newline>''],
              nativeArgs = None\<rparr>,
     toolCallId = ''call-1''\<rparr>"

(* ===== properties ===== *)

section \<open>Hook engine: blocking and block substitution\<close>





section \<open>Mutation classifier: priority order\<close>

lemma distinct_REFACTOR_PATTERNS: "distinct REFACTOR_PATTERNS"
  by (simp add: REFACTOR_PATTERNS_def)

lemma refactor_signal_count:
  "length (filter P REFACTOR_PATTERNS) = card {p \<in> set REFACTOR_PATTERNS. P p}"
  using distinct_REFACTOR_PATTERNS by (simp add: distinct_length_filter Int_def conj_commute)

text \<open>
  Claim C5. An explicit class that is one of the two names is returned as it is.
  Otherwise a new file gives INTENT_EVOLUTION. Otherwise one matching evolution signal
  gives INTENT_EVOLUTION, however many refactor signals match. Otherwise two or more
  distinct refactor signals that match give AST_REFACTOR, and fewer give
  INTENT_EVOLUTION.
\<close>

theorem classifyMutation_priority:
  "(explicitClass i = Some ''AST_REFACTOR'' \<longrightarrow> classifyMutation i = AST_REFACTOR) \<and>
   (explicitClass i = Some ''INTENT_EVOLUTION'' \<longrightarrow> classifyMutation i = INTENT_EVOLUTION) \<and>
   (explicitClass i \<noteq> Some ''AST_REFACTOR'' \<and> explicitClass i \<noteq> Some ''INTENT_EVOLUTION'' \<longrightarrow>
      (isNewFile i = Some True \<longrightarrow> classifyMutation i = INTENT_EVOLUTION) \<and>
      (isNewFile i \<noteq> Some True \<longrightarrow>
         ((\<exists>p \<in> set EVOLUTION_PATTERNS. rx_test p (content i)) \<longrightarrow>
            classifyMutation i = INTENT_EVOLUTION) \<and>
         (\<not> (\<exists>p \<in> set EVOLUTION_PATTERNS. rx_test p (content i)) \<longrightarrow>
            (2 \<le> card {p \<in> set REFACTOR_PATTERNS. rx_test p (content i)} \<longrightarrow>
               classifyMutation i = AST_REFACTOR) \<and>
            (card {p \<in> set REFACTOR_PATTERNS. rx_test p (content i)} < 2 \<longrightarrow>
               classifyMutation i = INTENT_EVOLUTION))))"
  unfolding classifyMutation_def refactor_signal_count list_ex_iff
  by auto

lemma ex_evolving_signals:
  "list_ex (\<lambda>p. rx_test p (content ex_evolving)) EVOLUTION_PATTERNS"
  "length (filter (\<lambda>p. rx_test p (content ex_evolving)) REFACTOR_PATTERNS) = 2"
  by code_simp+

lemma ex_bullets_signals:
  "\<not> list_ex (\<lambda>p. rx_test p (content ex_bullets)) EVOLUTION_PATTERNS"
  "length (filter (\<lambda>p. rx_test p (content ex_bullets)) REFACTOR_PATTERNS) = 2"
  by code_simp+

lemma ex_plain_signals:
  "\<not> list_ex (\<lambda>p. rx_test p (content ex_plain)) EVOLUTION_PATTERNS"
  "length (filter (\<lambda>p. rx_test p (content ex_plain)) REFACTOR_PATTERNS) = 0"
  by code_simp+

theorem classifyMutation_priority_witness:
  "classifyMutation ex_explicit_refactor = AST_REFACTOR \<and>
   classifyMutation ex_explicit_evolution = INTENT_EVOLUTION \<and>
   classifyMutation ex_new_file = INTENT_EVOLUTION \<and>
   classifyMutation ex_evolving = INTENT_EVOLUTION \<and>
   classifyMutation ex_bullets = AST_REFACTOR \<and>
   classifyMutation ex_plain = INTENT_EVOLUTION"
proof -
  have x: "explicitClass ex_explicit_refactor = Some ''AST_REFACTOR''"
    "explicitClass ex_explicit_evolution = Some ''INTENT_EVOLUTION''"
    "explicitClass ex_new_file = None" "isNewFile ex_new_file = Some True"
    "explicitClass ex_evolving = None" "isNewFile ex_evolving = Some False"
    "explicitClass ex_bullets = Some ''other''" "isNewFile ex_bullets = None"
    "explicitClass ex_plain = None" "isNewFile ex_plain = None"
    by (simp_all add: ex_explicit_refactor_def ex_explicit_evolution_def ex_new_file_def
        ex_evolving_def ex_bullets_def ex_plain_def)
  have "classifyMutation ex_explicit_refactor = AST_REFACTOR"
    using classifyMutation_priority [of ex_explicit_refactor] x by simp
  moreover have "classifyMutation ex_explicit_evolution = INTENT_EVOLUTION"
    using classifyMutation_priority [of ex_explicit_evolution] x by simp
  moreover have "classifyMutation ex_new_file = INTENT_EVOLUTION"
    using classifyMutation_priority [of ex_new_file] x by simp
  moreover have "classifyMutation ex_evolving = INTENT_EVOLUTION"
    using classifyMutation_priority [of ex_evolving] x ex_evolving_signals(1) [unfolded list_ex_iff]
    by simp
  moreover have "classifyMutation ex_bullets = AST_REFACTOR"
    using classifyMutation_priority [of ex_bullets] x ex_bullets_signals(1) [unfolded list_ex_iff]
      ex_bullets_signals(2) [unfolded refactor_signal_count] by simp
  moreover have "classifyMutation ex_plain = INTENT_EVOLUTION"
    using classifyMutation_priority [of ex_plain] x ex_plain_signals(1) [unfolded list_ex_iff]
      ex_plain_signals(2) [unfolded refactor_signal_count] by simp
  ultimately show ?thesis by blast
qed


section \<open>Rejection payload: a JSON round trip\<close>

lemma unhex_hexdigit_all: "list_all (\<lambda>n. unhex (hexdigit n) = Some n) [0..<16]"
  by code_simp

lemma unhex_hexdigit: "n < 16 \<Longrightarrow> unhex (hexdigit n) = Some n"
  using unhex_hexdigit_all by (simp add: list_all_iff)

lemma parse_escape_unicode:
  assumes "(of_char c :: nat) < 32"
  shows "parse_string_body ([BS, CHR ''u'', CHR ''0'', CHR ''0'',
             hexdigit (of_char c div 16), hexdigit (of_char c mod 16)] @ rest)
         = push c (parse_string_body rest)"
proof -
  have d: "unhex (hexdigit (of_char c div 16)) = Some (of_char c div 16)"
    using assms by (intro unhex_hexdigit) simp
  have m: "unhex (hexdigit ((of_char c :: nat) mod 16)) = Some (of_char c mod 16)"
    by (intro unhex_hexdigit) simp
  have z: "unhex (CHR ''0'') = Some 0" by (simp add: unhex_def)
  have lt: "(of_char c :: nat) < 256" using assms by simp
  show ?thesis
    using lt by (simp add: d m z Let_def)
qed

lemma parse_escape:
  "parse_string_body (json_escape c @ rest) = push c (parse_string_body rest)"
proof -
  consider "c = DQ" | "c = BS" | "c = CHR 0x08" | "c = CHR 0x09" | "c = CHR 0x0A"
    | "c = CHR 0x0C" | "c = CHR 0x0D"
    | "c \<noteq> DQ" "c \<noteq> BS" "c \<noteq> CHR 0x08" "c \<noteq> CHR 0x09" "c \<noteq> CHR 0x0A"
      "c \<noteq> CHR 0x0C" "c \<noteq> CHR 0x0D" "(of_char c :: nat) < 32"
    | "c \<noteq> DQ" "c \<noteq> BS" "\<not> (of_char c :: nat) < 32"
    by blast
  then show ?thesis
  proof cases
    case 8
    then show ?thesis
      using parse_escape_unicode [of c rest] by (simp add: json_escape_def)
  next
    case 9
    then show ?thesis by (auto simp add: json_escape_def)
  qed (simp_all add: json_escape_def unescape_def)
qed

lemma parse_body_roundtrip:
  "parse_string_body (concat (map json_escape s) @ DQ # rest) = Some (s, rest)"
  by (induction s) (simp_all add: parse_escape push_def)

lemma parse_value_roundtrip:
  "parse_value (json_value v @ rest) = Some (v, rest)"
  by (cases v) (simp_all add: parse_value_def json_value_def json_quote_def parse_body_roundtrip)

lemma skip_ws_simps [simp]:
  "skip_ws [] = []"
  "skip_ws (CHR '' '' # s) = skip_ws s"
  "skip_ws (NL # s) = skip_ws s"
  "skip_ws (DQ # s) = DQ # s"
  "skip_ws (CHR '':'' # s) = CHR '':'' # s"
  "skip_ws (CHR '','' # s) = CHR '','' # s"
  "skip_ws (CHR ''{'' # s) = CHR ''{'' # s"
  "skip_ws (CHR ''}'' # s) = CHR ''}'' # s"
  "skip_ws (CHR ''n'' # s) = CHR ''n'' # s"
  by (simp_all add: skip_ws_def json_ws_def)

lemma skip_ws_value: "skip_ws (json_value v @ rest) = json_value v @ rest"
  by (cases v) (simp_all add: json_value_def json_quote_def)

lemma parse_members_NL: "parse_members n (NL # s) = parse_members n s"
  by (cases n) simp_all

lemma parse_member_more:
  "parse_members (Suc n) (json_member (k, v) @ '',\<newline>'' @ rest)
     = map_option (Cons (k, v)) (parse_members n rest)"
  by (simp add: parse_members_NL add: json_member_def json_quote_def parse_body_roundtrip skip_ws_value
      parse_value_roundtrip)

lemma parse_member_last:
  "parse_members (Suc n) (json_member (k, v) @ ''\<newline>}'') = Some [(k, v)]"
  by (simp add: json_member_def json_quote_def parse_body_roundtrip skip_ws_value
      parse_value_roundtrip)

lemma parse_members_roundtrip:
  "kvs \<noteq> [] \<Longrightarrow> length kvs \<le> n \<Longrightarrow> parse_members n (json_members kvs @ ''\<newline>}'') = Some kvs"
proof (induction kvs arbitrary: n rule: json_members.induct)
  case 1
  then show ?case by simp
next
  case (2 kv)
  then obtain m where "n = Suc m" by (cases n) auto
  then show ?case using parse_member_last [of m "fst kv" "snd kv"] by simp
next
  case (3 kv x xs)
  then obtain m where n: "n = Suc m" by (cases n) auto
  with 3 have "parse_members m (json_members (x # xs) @ ''\<newline>}'') = Some (x # xs)" by simp
  then show ?case
    using parse_member_more [of m "fst kv" "snd kv" "json_members (x # xs) @ ''\<newline>}''"] n
    by simp
qed

lemma length_json_members: "length kvs \<le> length (json_members kvs)"
  by (induction kvs rule: json_members.induct) (simp_all add: json_member_def)

lemma JSON_parse_stringify:
  "kvs \<noteq> [] \<Longrightarrow> JSON_parse (json_stringify2 kvs) = Some kvs"
proof -
  assume ne: "kvs \<noteq> []"
  have len: "length kvs \<le> length (json_stringify2 kvs)"
    using length_json_members [of kvs] by (simp add: json_stringify2_def)
  obtain kv rest where kvs: "kvs = kv # rest" using ne by (cases kvs) auto
  have "\<exists>t. skip_ws (json_members kvs @ ''\<newline>}'') = DQ # t"
    unfolding kvs by (cases rest) (simp_all add: json_member_def json_quote_def)
  then obtain t where first: "skip_ws (json_members kvs @ ''\<newline>}'') = DQ # t" by blast
  have sk: "skip_ws (json_stringify2 kvs) = CHR ''{'' # NL # json_members kvs @ ''\<newline>}''"
    by (simp add: json_stringify2_def)
  have "JSON_parse (json_stringify2 kvs)
          = parse_members (length (json_stringify2 kvs)) (NL # json_members kvs @ ''\<newline>}'')"
    unfolding JSON_parse_def sk by (simp add: first)
  then show ?thesis
    using parse_members_roundtrip [OF ne len] by (simp only: parse_members_NL)
qed

text \<open>
  Claim C8. Whatever the code, tool name, message, intent id and hint are, the string
  that \<open>buildRejectionError\<close> returns parses as a JSON object with \<open>error\<close> equal to
  TOOL_REJECTED, the given code, tool and message, \<open>intent_id\<close> equal to the given id
  or null when there is none, and \<open>recovery_hint\<close> equal to the given hint (the empty
  string included) or to the default hint when there is none.
\<close>

theorem buildRejectionError_parses:
  "JSON_parse (buildRejectionError p) =
     Some [(''error'', Some ''TOOL_REJECTED''),
           (''code'', Some (code p)),
           (''tool'', Some (toolName p)),
           (''intent_id'', intentId p),
           (''message'', Some (message p)),
           (''recovery_hint'',
              Some (case recoveryHint p of Some hint \<Rightarrow> hint | None \<Rightarrow> default_recovery_hint))]"
  unfolding buildRejectionError_def
  by (subst JSON_parse_stringify) (simp_all add: rejection_object_def nullish_def split: option.splits)



section \<open>Optimistic lock\<close>

lemma rejection_field_code:
  "rejection_field (buildRejectionError p) ''code'' = Some (code p)"
  by (simp add: rejection_field_def buildRejectionError_def JSON_parse_stringify rejection_object_def)




text \<open>
  Claim C9. On a write tool whose expected hash (taken from \<open>nativeArgs\<close> first, then
  from \<open>params\<close>) is the empty string the hook passes, whatever the file system holds
  (the file may exist with any text), and its result is the result of the same call
  with the hash removed.
\<close>

theorem OptimisticLock_empty_hash_passes:
  assumes "name (block ctx) \<in> set writeTools"
    and "expected_hash_of (block ctx) = Some []"
  shows "OptimisticLock_onPreExecute env fs ctx = pass \<and>
         OptimisticLock_onPreExecute env fs ctx =
         OptimisticLock_onPreExecute env fs
           (ctx\<lparr>block := (block ctx)\<lparr>params := (params (block ctx))(''expected_hash'' := None),
                    nativeArgs := map_option (\<lambda>m. m(''expected_hash'' := None)) (nativeArgs (block ctx))\<rparr>\<rparr>)"
proof -
  have "expected_hash_of ((block ctx)\<lparr>params := (params (block ctx))(''expected_hash'' := None),
                    nativeArgs := map_option (\<lambda>m. m(''expected_hash'' := None)) (nativeArgs (block ctx))\<rparr>) = None"
    by (simp add: expected_hash_of_def nullish_def native_get_def split: option.splits)
  then show ?thesis
    using assms by (simp add: OptimisticLock_onPreExecute_def Let_def truthy_def)
qed


lemma ex_write_facts:
  "name (block (ex_write p h)) = ''write_to_file''"
  "expected_hash_of (block (ex_write p h)) = h"
  "raw_path_of (block (ex_write p h)) = p"
  by (simp_all add: ex_write_def expected_hash_of_def raw_path_of_def nullish_def native_get_def)

lemma ex_fs_facts:
  "ex_fs (abs_path ex_host ''src/a.ts'') = Text ''v2''"
  "ex_fs (abs_path ex_host ''src/gone.ts'') = Absent"
  "hashContent ex_host ''v2'' = ''sha256:v2''"
  by (simp_all add: ex_fs_def abs_path_def ex_host_def hashContent_def)


theorem OptimisticLock_empty_hash_passes_witness:
  "fileExistsAtPath ex_fs (abs_path ex_host ''src/a.ts'') \<and>
   hashContent ex_host ''v2'' \<noteq> [] \<and>
   OptimisticLock_onPreExecute ex_host ex_fs (ex_write ''src/a.ts'' (Some [])) = pass"
  using OptimisticLock_empty_hash_passes [of "ex_write ''src/a.ts'' (Some [])" ex_host ex_fs]
  by (simp add: ex_write_facts ex_fs_facts writeTools_def fileExistsAtPath_def)



section \<open>Authorization: bypass list and approval dialog\<close>

lemma loadIntentIgnore_cached:
  "intentIgnorePath st = Some (intentignore_path env) \<Longrightarrow> intentIgnoreCache st = Some cached \<Longrightarrow>
   loadIntentIgnore env fs st = (cached, st)"
  by (simp add: loadIntentIgnore_def Let_def)

lemma loadIntentIgnore_fresh:
  "intentIgnorePath st \<noteq> Some (intentignore_path env) \<or> intentIgnoreCache st = None \<Longrightarrow>
   fst (loadIntentIgnore env fs st) =
     (case fs (intentignore_path env) of Text raw \<Rightarrow> parse_intentignore raw | _ \<Rightarrow> [])"
  by (auto simp add: loadIntentIgnore_def Let_def fileExistsAtPath_def readFile_def
      split: fnode.splits option.splits)

lemma rejection_code_user:
  "rejection_field (buildRejectionError (user_rejected ctx)) ''code'' = Some ''USER_REJECTED_INTENT_EVOLUTION''"
  by (simp add: rejection_field_code user_rejected_def)

text \<open>
  Claim C6, as amended. A tool that is not DESTRUCTIVE passes, with no dialog and the
  hook's fields unchanged. For a DESTRUCTIVE tool the hook looks up the active intent id
  (the text \<open>(no intent)\<close> when the task has none) in its bypass list: when the id is
  there, the call passes and no dialog is shown; when it is not, the dialog is shown, the
  answer Approve lets the call pass, and every other answer, a dismissal included, gives
  a block whose payload has the code USER_REJECTED_INTENT_EVOLUTION. The bypass list is
  the cached one when the hook holds a cache for this workspace's path; otherwise it is
  read from \<open>.orchestration/.intentignore\<close> now (empty when the file is missing or
  unreadable).
\<close>

theorem Authorization_bypass_or_modal:
  "(classifyCommand (name (block ctx)) \<noteq> DESTRUCTIVE \<longrightarrow>
      Authorization_onPreExecute env fs ui st ctx = (pass, st, None)) \<and>
   (classifyCommand (name (block ctx)) = DESTRUCTIVE \<longrightarrow>
      (lookup_id ctx \<in> set (fst (loadIntentIgnore env fs st)) \<longrightarrow>
         fst (Authorization_onPreExecute env fs ui st ctx) = pass \<and>
         snd (snd (Authorization_onPreExecute env fs ui st ctx)) = None) \<and>
      (lookup_id ctx \<notin> set (fst (loadIntentIgnore env fs st)) \<longrightarrow>
         snd (snd (Authorization_onPreExecute env fs ui st ctx))
           = Some (approval_message (lookup_id ctx) (block ctx)) \<and>
         (ui (approval_message (lookup_id ctx) (block ctx)) = Some ''Approve'' \<longrightarrow>
            fst (Authorization_onPreExecute env fs ui st ctx) = pass) \<and>
         (ui (approval_message (lookup_id ctx) (block ctx)) \<noteq> Some ''Approve'' \<longrightarrow>
            (\<exists>payload. fst (Authorization_onPreExecute env fs ui st ctx) = block_with payload \<and>
               rejection_field payload ''code'' = Some ''USER_REJECTED_INTENT_EVOLUTION''))) \<and>
      (\<forall>cached. intentIgnorePath st = Some (intentignore_path env) \<and>
                intentIgnoreCache st = Some cached \<longrightarrow>
         fst (loadIntentIgnore env fs st) = cached) \<and>
      (intentIgnorePath st \<noteq> Some (intentignore_path env) \<or> intentIgnoreCache st = None \<longrightarrow>
         fst (loadIntentIgnore env fs st) =
           (case fs (intentignore_path env) of Text raw \<Rightarrow> parse_intentignore raw | _ \<Rightarrow> [])))"
proof -
  have a: "classifyCommand (name (block ctx)) \<noteq> DESTRUCTIVE \<Longrightarrow>
      Authorization_onPreExecute env fs ui st ctx = (pass, st, None)"
    by (simp add: Authorization_onPreExecute_def)
  have b: "classifyCommand (name (block ctx)) = DESTRUCTIVE \<Longrightarrow>
      lookup_id ctx \<in> set (fst (loadIntentIgnore env fs st)) \<Longrightarrow>
         fst (Authorization_onPreExecute env fs ui st ctx) = pass \<and>
         snd (snd (Authorization_onPreExecute env fs ui st ctx)) = None"
    by (cases "loadIntentIgnore env fs st")
       (simp add: Authorization_onPreExecute_def lookup_id_def Let_def)
  have c: "classifyCommand (name (block ctx)) = DESTRUCTIVE \<Longrightarrow>
      lookup_id ctx \<notin> set (fst (loadIntentIgnore env fs st)) \<Longrightarrow>
         snd (snd (Authorization_onPreExecute env fs ui st ctx))
           = Some (approval_message (lookup_id ctx) (block ctx)) \<and>
         (ui (approval_message (lookup_id ctx) (block ctx)) = Some ''Approve'' \<longrightarrow>
            fst (Authorization_onPreExecute env fs ui st ctx) = pass) \<and>
         (ui (approval_message (lookup_id ctx) (block ctx)) \<noteq> Some ''Approve'' \<longrightarrow>
            (\<exists>payload. fst (Authorization_onPreExecute env fs ui st ctx) = block_with payload \<and>
               rejection_field payload ''code'' = Some ''USER_REJECTED_INTENT_EVOLUTION''))"
    using rejection_code_user [of ctx]
    by (cases "loadIntentIgnore env fs st")
       (auto simp add: Authorization_onPreExecute_def lookup_id_def Let_def)
  show ?thesis
    using a b c loadIntentIgnore_cached [of st env _ fs] loadIntentIgnore_fresh [of st env fs]
    by (simp (no_asm_simp))
qed


lemma ex_ignore_facts:
  "intentignore_path ex_host = ''/ws/.orchestration/.intentignore''"
  "parse_intentignore ''INT-001\<newline>'' = [''INT-001'']"
  "parse_intentignore ''# bypass\<newline>(no intent)\<newline>'' = [''(no intent)'']"
  "classifyCommand ''write_to_file'' = DESTRUCTIVE"
  "classifyCommand ''edit'' = DESTRUCTIVE"
  "classifyCommand ''read_file'' = SAFE"
  by code_simp+

lemma first_call_state:
  "classifyCommand t = DESTRUCTIVE \<Longrightarrow>
   Authorization_onPreExecute ex_host ex_fs_empty ui_approve fresh_auth (ex_call t i)
   = (pass, \<lparr>intentIgnoreCache = Some [], intentIgnorePath = Some ''/ws/.orchestration/.intentignore''\<rparr>,
      Some (approval_message (lookup_id (ex_call t i)) (block (ex_call t i))))"
  by (simp add: Authorization_onPreExecute_def ex_ignore_facts loadIntentIgnore_def fresh_auth_def
      Let_def ex_fs_empty_def fileExistsAtPath_def ui_approve_def lookup_id_def ex_call_def)

lemma ex_load_facts:
  "fst (loadIntentIgnore ex_host (ex_fs_ignore ''INT-001\<newline>'') fresh_auth) = [''INT-001'']"
  "fst (loadIntentIgnore ex_host ex_fs_empty fresh_auth) = []"
  "fst (loadIntentIgnore ex_host (ex_fs_ignore ''# bypass\<newline>(no intent)\<newline>'') fresh_auth) = [''(no intent)'']"
  by (simp_all add: loadIntentIgnore_def ex_ignore_facts fresh_auth_def Let_def ex_fs_ignore_def
      ex_fs_empty_def fileExistsAtPath_def readFile_def)

lemma ex_call_facts:
  "name (block (ex_call t i)) = t"
  "lookup_id (ex_call t (Some j)) = j"
  "lookup_id (ex_call t None) = ''(no intent)''"
  "activeIntentId (task (ex_call t i)) = i"
  by (simp_all add: ex_call_def lookup_id_def)

text \<open>
  Claim C6 as it was stated fails on a cache that is older than the file. The first
  destructive call on a workspace without a bypass file caches the empty list; the
  file is then written with the line INT-001; the next call by intent INT-001 still
  shows the dialog.
\<close>

theorem Authorization_listed_counterexample:
  "ex_fs_ignore ''INT-001\<newline>'' (intentignore_path ex_host) = Text ''INT-001\<newline>'' \<and>
   ''INT-001'' \<in> set (parse_intentignore ''INT-001\<newline>'') \<and>
   classifyCommand (name (block (ex_call ''write_to_file'' (Some ''INT-001'')))) = DESTRUCTIVE \<and>
   snd (snd (Authorization_onPreExecute ex_host (ex_fs_ignore ''INT-001\<newline>'') ui_approve
      (fst (snd (Authorization_onPreExecute ex_host ex_fs_empty ui_approve fresh_auth
                   (ex_call ''write_to_file'' (Some ''INT-001'')))))
      (ex_call ''write_to_file'' (Some ''INT-001'')))) \<noteq> None"
  by (simp add: first_call_state ex_ignore_facts)
     (simp add: Authorization_onPreExecute_def ex_ignore_facts loadIntentIgnore_def Let_def
        ex_fs_ignore_def ui_approve_def ex_call_def)

theorem Authorization_bypass_or_modal_witness:
  "Authorization_onPreExecute ex_host ex_fs_empty ui_approve fresh_auth (ex_call ''read_file'' (Some ''INT-001''))
     = (pass, fresh_auth, None) \<and>
   fst (Authorization_onPreExecute ex_host (ex_fs_ignore ''INT-001\<newline>'') ui_reject fresh_auth
          (ex_call ''write_to_file'' (Some ''INT-001''))) = pass \<and>
   snd (snd (Authorization_onPreExecute ex_host (ex_fs_ignore ''INT-001\<newline>'') ui_reject fresh_auth
          (ex_call ''write_to_file'' (Some ''INT-001'')))) = None \<and>
   snd (snd (Authorization_onPreExecute ex_host ex_fs_empty ui_dismiss fresh_auth
          (ex_call ''write_to_file'' (Some ''INT-001'')))) \<noteq> None \<and>
   (\<exists>payload. fst (Authorization_onPreExecute ex_host ex_fs_empty ui_dismiss fresh_auth
          (ex_call ''write_to_file'' (Some ''INT-001''))) = block_with payload \<and>
      rejection_field payload ''code'' = Some ''USER_REJECTED_INTENT_EVOLUTION'') \<and>
   fst (Authorization_onPreExecute ex_host ex_fs_empty ui_approve fresh_auth
          (ex_call ''write_to_file'' (Some ''INT-001''))) = pass \<and>
   snd (snd (Authorization_onPreExecute ex_host ex_fs_empty ui_reject
          \<lparr>intentIgnoreCache = Some [''INT-001''],
           intentIgnorePath = Some ''/ws/.orchestration/.intentignore''\<rparr>
          (ex_call ''write_to_file'' (Some ''INT-001'')))) = None"
proof -
  have 1: "Authorization_onPreExecute ex_host ex_fs_empty ui_approve fresh_auth (ex_call ''read_file'' (Some ''INT-001''))
     = (pass, fresh_auth, None)"
    using Authorization_bypass_or_modal [of "ex_call ''read_file'' (Some ''INT-001'')" ex_host ex_fs_empty ui_approve fresh_auth]
    by (simp add: ex_call_facts ex_ignore_facts)
  have 2: "fst (Authorization_onPreExecute ex_host (ex_fs_ignore ''INT-001\<newline>'') ui_reject fresh_auth
          (ex_call ''write_to_file'' (Some ''INT-001''))) = pass \<and>
   snd (snd (Authorization_onPreExecute ex_host (ex_fs_ignore ''INT-001\<newline>'') ui_reject fresh_auth
          (ex_call ''write_to_file'' (Some ''INT-001'')))) = None"
    using Authorization_bypass_or_modal [of "ex_call ''write_to_file'' (Some ''INT-001'')" ex_host
        "ex_fs_ignore ''INT-001\<newline>''" ui_reject fresh_auth]
    by (simp add: ex_call_facts ex_ignore_facts ex_load_facts)
  have 3: "snd (snd (Authorization_onPreExecute ex_host ex_fs_empty ui_dismiss fresh_auth
          (ex_call ''write_to_file'' (Some ''INT-001'')))) \<noteq> None \<and>
   (\<exists>payload. fst (Authorization_onPreExecute ex_host ex_fs_empty ui_dismiss fresh_auth
          (ex_call ''write_to_file'' (Some ''INT-001''))) = block_with payload \<and>
      rejection_field payload ''code'' = Some ''USER_REJECTED_INTENT_EVOLUTION'')"
    using Authorization_bypass_or_modal [of "ex_call ''write_to_file'' (Some ''INT-001'')" ex_host
        ex_fs_empty ui_dismiss fresh_auth]
    by (simp add: ex_call_facts ex_ignore_facts ex_load_facts ui_dismiss_def)
  have 4: "fst (Authorization_onPreExecute ex_host ex_fs_empty ui_approve fresh_auth
          (ex_call ''write_to_file'' (Some ''INT-001''))) = pass"
    using Authorization_bypass_or_modal [of "ex_call ''write_to_file'' (Some ''INT-001'')" ex_host
        ex_fs_empty ui_approve fresh_auth]
    by (simp add: ex_call_facts ex_ignore_facts ex_load_facts ui_approve_def)
  have 5: "snd (snd (Authorization_onPreExecute ex_host ex_fs_empty ui_reject
          \<lparr>intentIgnoreCache = Some [''INT-001''],
           intentIgnorePath = Some ''/ws/.orchestration/.intentignore''\<rparr>
          (ex_call ''write_to_file'' (Some ''INT-001'')))) = None"
    using Authorization_bypass_or_modal [of "ex_call ''write_to_file'' (Some ''INT-001'')" ex_host
        ex_fs_empty ui_reject "\<lparr>intentIgnoreCache = Some [''INT-001''],
           intentIgnorePath = Some ''/ws/.orchestration/.intentignore''\<rparr>"]
    by (simp add: ex_call_facts ex_ignore_facts)
  show ?thesis using 1 2 3 4 5 by blast
qed

lemma gatekeeper_omitted_facts:
  "list_all (\<lambda>t. classifyCommand t = DESTRUCTIVE \<and> t \<notin> set sideEffectTools) gatekeeper_omitted"
  by code_simp

lemma listed_line:
  "l \<in> set (split_on NL raw) \<Longrightarrow> trim l = i \<Longrightarrow> i \<noteq> [] \<Longrightarrow> \<not> prefix ''#'' i \<Longrightarrow>
   i \<in> set (parse_intentignore raw)"
  by (auto simp add: parse_intentignore_def)

text \<open>
  Claim C10, as amended. On a DESTRUCTIVE tool called by a task without an active intent
  the hook looks up the text \<open>(no intent)\<close>: when the bypass list holds it, the call
  passes and no dialog is shown. That is the case when the hook holds no cache for this
  workspace's path and a line of \<open>.orchestration/.intentignore\<close> is, once trimmed,
  exactly \<open>(no intent)\<close>. The Gatekeeper lets such a call through when the tool is one
  of edit, edit_file, apply_patch, generate_image, run_slash_command, skill and
  access_mcp_resource: each is DESTRUCTIVE and none is in the Gatekeeper's list.
\<close>

theorem Authorization_no_intent_bypass:
  assumes d: "classifyCommand (name (block ctx)) = DESTRUCTIVE"
    and n: "activeIntentId (task ctx) = None"
  shows "(''(no intent)'' \<in> set (fst (loadIntentIgnore env fs st)) \<longrightarrow>
            fst (Authorization_onPreExecute env fs ui st ctx) = pass \<and>
            snd (snd (Authorization_onPreExecute env fs ui st ctx)) = None) \<and>
         (\<forall>raw. (intentIgnoreCache st = None \<or> intentIgnorePath st \<noteq> Some (intentignore_path env)) \<and>
                fs (intentignore_path env) = Text raw \<and>
                (\<exists>l \<in> set (split_on NL raw). trim l = ''(no intent)'') \<longrightarrow>
            fst (Authorization_onPreExecute env fs ui st ctx) = pass \<and>
            snd (snd (Authorization_onPreExecute env fs ui st ctx)) = None) \<and>
         (name (block ctx) \<in> set gatekeeper_omitted \<longrightarrow> Gatekeeper_onPreExecute ctx = pass) \<and>
         (\<forall>t \<in> set gatekeeper_omitted. classifyCommand t = DESTRUCTIVE \<and> t \<notin> set sideEffectTools)"
proof -
  have A: "''(no intent)'' \<in> set (fst (loadIntentIgnore env fs st)) \<Longrightarrow>
            fst (Authorization_onPreExecute env fs ui st ctx) = pass \<and>
            snd (snd (Authorization_onPreExecute env fs ui st ctx)) = None"
    using d n by (cases "loadIntentIgnore env fs st")
      (simp add: Authorization_onPreExecute_def Let_def)
  have B: "''(no intent)'' \<in> set (fst (loadIntentIgnore env fs st))"
    if "intentIgnoreCache st = None \<or> intentIgnorePath st \<noteq> Some (intentignore_path env)"
      and "fs (intentignore_path env) = Text raw"
      and "\<exists>l \<in> set (split_on NL raw). trim l = ''(no intent)''" for raw
  proof -
    have "''(no intent)'' \<in> set (parse_intentignore raw)"
      using that(3) by (auto intro: listed_line)
    moreover have "fst (loadIntentIgnore env fs st) = parse_intentignore raw"
      using loadIntentIgnore_fresh [of st env fs] that(1,2) by auto
    ultimately show ?thesis by simp
  qed
  have C: "\<forall>t \<in> set gatekeeper_omitted. classifyCommand t = DESTRUCTIVE \<and> t \<notin> set sideEffectTools"
    using gatekeeper_omitted_facts by (simp add: list_all_iff)
  have D: "name (block ctx) \<in> set gatekeeper_omitted \<Longrightarrow> Gatekeeper_onPreExecute ctx = pass"
    using C by (auto simp add: Gatekeeper_onPreExecute_def)
  show ?thesis using A B C D by blast
qed

text \<open>
  Claim C10 as it was stated fails on a cache that is older than the file: after a first
  intent-less \<open>edit\<close> on a workspace without a bypass file, the line \<open>(no intent)\<close>
  written afterwards does not suppress the dialog of the next intent-less \<open>edit\<close>.
\<close>

theorem Authorization_no_intent_counterexample:
  "ex_fs_ignore ''(no intent)\<newline>'' (intentignore_path ex_host) = Text ''(no intent)\<newline>'' \<and>
   ''(no intent)'' \<in> set (split_on NL ''(no intent)\<newline>'') \<and>
   classifyCommand (name (block (ex_call ''edit'' None))) = DESTRUCTIVE \<and>
   activeIntentId (task (ex_call ''edit'' None)) = None \<and>
   Gatekeeper_onPreExecute (ex_call ''edit'' None) = pass \<and>
   snd (snd (Authorization_onPreExecute ex_host (ex_fs_ignore ''(no intent)\<newline>'') ui_approve
      (fst (snd (Authorization_onPreExecute ex_host ex_fs_empty ui_approve fresh_auth
                   (ex_call ''edit'' None))))
      (ex_call ''edit'' None))) \<noteq> None"
  by (simp add: first_call_state ex_ignore_facts ex_call_facts)
     (simp add: Authorization_onPreExecute_def ex_ignore_facts loadIntentIgnore_def Let_def
        ex_fs_ignore_def ui_approve_def ex_call_def Gatekeeper_onPreExecute_def sideEffectTools_def)

theorem Authorization_no_intent_bypass_witness:
  "classifyCommand (name (block (ex_call ''edit'' None))) = DESTRUCTIVE \<and>
   activeIntentId (task (ex_call ''edit'' None)) = None \<and>
   fst (Authorization_onPreExecute ex_host (ex_fs_ignore ''# bypass\<newline>(no intent)\<newline>'') ui_reject
          fresh_auth (ex_call ''edit'' None)) = pass \<and>
   snd (snd (Authorization_onPreExecute ex_host (ex_fs_ignore ''# bypass\<newline>(no intent)\<newline>'') ui_reject
          fresh_auth (ex_call ''edit'' None))) = None \<and>
   Gatekeeper_onPreExecute (ex_call ''edit'' None) = pass"
proof -
  have d: "classifyCommand (name (block (ex_call ''edit'' None))) = DESTRUCTIVE"
    and n: "activeIntentId (task (ex_call ''edit'' None)) = None"
    and o: "name (block (ex_call ''edit'' None)) \<in> set gatekeeper_omitted"
    by (simp_all add: ex_call_facts ex_ignore_facts gatekeeper_omitted_def)
  show ?thesis
    using Authorization_no_intent_bypass [OF d n, of ex_host
        "ex_fs_ignore ''# bypass\<newline>(no intent)\<newline>''" fresh_auth ui_reject] d n o
    by (simp add: ex_load_facts)
qed



section \<open>Scope matcher\<close>

text \<open>The regular expression built from a pattern is always inside the modelled fragment.\<close>

lemma W_mono: "W b s \<Longrightarrow> W True s"
  by (induction rule: W.induct) (auto intro: W.intros)

lemma W_escape_meta: "W False (escape_meta s)"
  by (induction s) (auto simp add: escape_meta_def intro: W.intros)

lemma W_ords: "set xs \<inter> set escaped_meta = {} \<Longrightarrow> W b s \<Longrightarrow> W b (xs @ s)"
  by (induction xs) (auto intro: W.intros)

lemma W_drop_ord:
  "W b s \<Longrightarrow> prefix n s \<Longrightarrow> set n \<inter> set escaped_meta = {} \<Longrightarrow> W b (drop (length n) s)"
proof (induction arbitrary: n rule: W.induct)
  case (W_nil b)
  then show ?case by (simp add: W.W_nil)
next
  case (W_esc b s m)
  then show ?case
    by (cases n) (auto simp add: escaped_meta_def intro: W.intros)
next
  case (W_ord b s c)
  then show ?case by (cases n) (auto intro: W.intros)
next
  case (W_cls s)
  then show ?case by (cases n) (auto simp add: escaped_meta_def intro: W.intros)
next
  case (W_dot s)
  then show ?case by (cases n) (auto simp add: escaped_meta_def intro: W.intros)
qed


lemma replace_all_W:
  assumes n: "needle \<noteq> []" "set needle \<inter> set escaped_meta = {}"
    and h: "b \<longrightarrow> hd needle \<noteq> CHR ''/'' \<and> hd needle \<noteq> CHR ''*''"
    and r: "\<And>w. W b' w \<Longrightarrow> W b' (rep @ w)"
    and bb: "b \<longrightarrow> b'"
  shows "W b s \<Longrightarrow> W b' (replace_all needle rep s)"
proof (induction "length s" arbitrary: s rule: less_induct)
  case less
  from less.prems show ?case
  proof (cases rule: W.cases)
    case (W_nil)
    then show ?thesis by (simp add: W.W_nil)
  next
    case (W_esc t m)
    have nb: "\<not> prefix needle (BS # m # t)" "\<not> prefix needle (m # t)"
      using n W_esc(3) by (cases needle; auto simp add: escaped_meta_def)+
    have "W b' (replace_all needle rep t)"
      using less.hyps [of t] W_esc by simp
    then show ?thesis
      using W_esc nb by (auto intro: W.W_esc)
  next
    case (W_ord t c)
    show ?thesis
    proof (cases "prefix needle (c # t)")
      case True
      have "W b (drop (length needle) (c # t))"
        using W_drop_ord [OF less.prems [unfolded W_ord(1)] True n(2)] .
      moreover have "drop (length needle) (c # t) = drop (length needle - 1) t"
        using n(1) by (cases needle) auto
      ultimately have "W b' (replace_all needle rep (drop (length needle - 1) t))"
        using less.hyps [of "drop (length needle - 1) t"] W_ord(1) by simp
      then show ?thesis
        using True n(1) W_ord(1) r by simp
    next
      case False
      have "W b' (replace_all needle rep t)"
        using less.hyps [of t] W_ord by simp
      then show ?thesis
        using False W_ord by (auto intro: W.W_ord)
    qed
  next
    case (W_cls t)
    have b: "b" "b'" using W_cls bb by simp_all
    have nb: "\<not> prefix needle (CHR ''['' # CHR ''^'' # CHR ''/'' # CHR '']'' # CHR ''*'' # t)"
      "\<not> prefix needle (CHR ''^'' # CHR ''/'' # CHR '']'' # CHR ''*'' # t)"
      "\<not> prefix needle (CHR ''/'' # CHR '']'' # CHR ''*'' # t)"
      "\<not> prefix needle (CHR '']'' # CHR ''*'' # t)"
      "\<not> prefix needle (CHR ''*'' # t)"
      using n h b by (cases needle; auto simp add: escaped_meta_def)+
    have "W b' (replace_all needle rep t)"
      using less.hyps [of t] W_cls by simp
    then show ?thesis
      using W_cls nb b by (auto intro: W.W_cls)
  next
    case (W_dot t)
    have b: "b" "b'" using W_dot bb by simp_all
    have nb: "\<not> prefix needle (CHR ''.'' # CHR ''*'' # t)"
      "\<not> prefix needle (CHR ''*'' # t)"
      using n h b by (cases needle; auto simp add: escaped_meta_def)+
    have "W b' (replace_all needle rep t)"
      using less.hyps [of t] W_dot by simp
    then show ?thesis
      using W_dot nb b by (auto intro: W.W_dot)
  qed
qed

lemma W_regexStr: "W True (regexStr p)"
proof -
  have g: "W False (GLOBSTAR @ w)" if "W False w" for w
    using that by (intro W_ords) (auto simp add: GLOBSTAR_def escaped_meta_def)
  have 1: "W False (replace_all ''**'' GLOBSTAR (escape_meta p))"
    by (rule replace_all_W [where b = False, OF _ _ _ g])
       (auto simp add: escaped_meta_def W_escape_meta)
  have 2: "W True (replace_all ''*'' ''[^/]*'' (replace_all ''**'' GLOBSTAR (escape_meta p)))"
    by (rule replace_all_W [where b = False, OF _ _ _ _ _ 1])
       (auto simp add: escaped_meta_def intro: W.intros)
  show ?thesis
    unfolding regexStr_def
    by (rule replace_all_W [where b = True, OF _ _ _ _ _ 2])
       (auto simp add: escaped_meta_def GLOBSTAR_def intro: W.intros)
qed

lemma tokenize_W_append: "W b s \<Longrightarrow> tokenize (s @ t) = tokenize s @ tokenize t"
  by (induction rule: W.induct) (auto simp add: escaped_meta_def syntax_chars_def)

lemma tokenize_W: "W b s \<Longrightarrow> TOther \<notin> set (tokenize s)"
  by (induction rule: W.induct) (auto simp add: escaped_meta_def syntax_chars_def)

lemma parse_terms_modelled: "TOther \<notin> set ts \<Longrightarrow> parse_terms ts \<noteq> Unmodelled"
  by (induction ts rule: parse_terms.induct)
     (auto simp add: then_rx_def split: compiled.splits)

lemma new_RegExp_modelled: "new_RegExp (''^'' @ regexStr p @ ''$'') \<noteq> Unmodelled"
proof -
  have "tokenize (''^'' @ regexStr p @ ''$'') = TAssert Bos # tokenize (regexStr p) @ [TAssert Eos]"
    using tokenize_W_append [OF W_regexStr, of p "''$''"] by simp
  then show ?thesis
    unfolding new_RegExp_def
    using tokenize_W [OF W_regexStr, of p] by (intro parse_terms_modelled) simp
qed


lemma matchesScope_in_fragment: "matchesScope filePath pattern \<noteq> OutsideFragment"
  using new_RegExp_modelled [of "posix_slashes pattern"]
  by (simp add: matchesScope_def Let_def split: compiled.splits)

text \<open>
  What holds of the matcher for every input: equal strings match; the three examples of
  the claim come out as it says; and a pattern that is, as a directory, a prefix of the
  path matches whenever the regular expression built from the pattern compiles.
\<close>

lemma matchesScope_equal: "matchesScope p p = Returns True"
  by (simp add: matchesScope_def)

lemma matchesScope_examples:
  "matchesScope ''a/b/c/d'' ''a/**'' = Returns True"
  "matchesScope ''a/b'' ''a/*'' = Returns True"
  "matchesScope ''a/b/c'' ''a/*'' = Returns False"
  by code_simp+

lemma matchesScope_prefix_when_compiled:
  assumes "new_RegExp (''^'' @ regexStr (posix_slashes pattern) @ ''$'') = Compiled regex"
    and "prefix (if suffix ''/'' (posix_slashes pattern) then posix_slashes pattern
                 else posix_slashes pattern @ ''/'') (posix_slashes filePath)"
  shows "matchesScope filePath pattern = Returns True"
  using assms by (simp add: matchesScope_def Let_def)

text \<open>
  Claim C3 says that a pattern treated as a directory matches every path of which it is
  a prefix. The question mark is not among the characters that the matcher escapes, so
  the pattern \<open>?tmp\<close> becomes the source \<open>^?tmp$\<close>, a quantifier with nothing to repeat:
  \<open>new RegExp\<close> throws before the directory test is reached, although \<open>?tmp/\<close> is a
  prefix of the path \<open>?tmp/a.ts\<close>.
\<close>

theorem matchesScope_directory_prefix_throws:
  "prefix (''?tmp'' @ ''/'') ''?tmp/a.ts'' \<and>
   regexStr ''?tmp'' = ''?tmp'' \<and>
   new_RegExp ''^?tmp$'' = Invalid \<and>
   matchesScope ''?tmp/a.ts'' ''?tmp'' = Throws SyntaxError"
  by code_simp


section \<open>Intent update: writes and frame\<close>


lemma set_field_lookup: "map_of (set_field k v kvs) = (map_of kvs)(k \<mapsto> v)"
  by (induction kvs) auto












section \<open>Trace writer: the new-file flag\<close>

text \<open>
  For a \<open>write_to_file\<close> call with an active intent, a path, some content and no explicit
  class, the class of the appended entry is the classifier's answer with \<open>isNewFile\<close>
  true exactly when nothing exists at the path in the file system that the post handler
  sees, which is the one the tool has left.
\<close>

lemma Trace_write_to_file_class:
  assumes "name (block ctx) = ''write_to_file''"
    and "activeIntentId (task ctx) = Some aid" "aid \<noteq> []"
    and "raw_path_of (block ctx) \<noteq> []"
    and "nullish (native_get (nativeArgs (block ctx)) ''content'') (params (block ctx) ''content'') = Some c"
      "c \<noteq> []"
    and "nullish (native_get (nativeArgs (block ctx)) ''mutation_class'')
           (params (block ctx) ''mutation_class'') = None"
  shows "map_option entry_classes (Trace_onPostExecute env fs ctx) =
           Some [classifyMutation \<lparr>explicitClass = None, content = c,
                   isNewFile = Some (fs (abs_path env (raw_path_of (block ctx))) = Absent)\<rparr>]"
  using assms
  by (simp add: Trace_onPostExecute_def trace_content_def mutatingTools_def truthy_def Let_def
      entry_classes_def fileExistsAtPath_def)

text \<open>
  Claim C1 says that a \<open>write_to_file\<close> that creates its target is recorded as
  INTENT_EVOLUTION. The handler runs after the tool, when the file exists: for the new
  note \<open>notes.md\<close> with the text \<open>- *todo*\<close> and a final newline, absent before the
  write, \<open>isNewFile\<close> is false, two refactor signals match (the empty last line and
  \<open>- *\<close>), no evolution signal does, and the entry carries AST_REFACTOR. Run on the
  file system as it was before the write, the same handler gives INTENT_EVOLUTION.
\<close>

theorem Trace_new_file_seen_after_write:
  "\<not> fileExistsAtPath ex_fs_empty (abs_path ex_host (raw_path_of (block ex_new_note))) \<and>
   map_option entry_classes
     (Trace_onPostExecute ex_host (write_to_file_effect ex_host ex_fs_empty (block ex_new_note))
        ex_new_note) = Some [AST_REFACTOR] \<and>
   map_option entry_classes (Trace_onPostExecute ex_host ex_fs_empty ex_new_note)
     = Some [INTENT_EVOLUTION]"
proof -
  have b: "name (block ex_new_note) = ''write_to_file''"
    "activeIntentId (task ex_new_note) = Some ''INT-001''"
    "raw_path_of (block ex_new_note) = ''notes.md''"
    "nullish (native_get (nativeArgs (block ex_new_note)) ''content'')
       (params (block ex_new_note) ''content'') = Some ''- *todo*\<newline>''"
    "nullish (native_get (nativeArgs (block ex_new_note)) ''mutation_class'')
           (params (block ex_new_note) ''mutation_class'') = None"
    by (simp_all add: ex_new_note_def ex_task_def raw_path_of_def nullish_def native_get_def)
  have c: "classifyMutation \<lparr>explicitClass = None, content = ''- *todo*\<newline>'', isNewFile = Some False\<rparr>
             = AST_REFACTOR"
    by code_simp
  have "map_option entry_classes
     (Trace_onPostExecute ex_host (write_to_file_effect ex_host ex_fs_empty (block ex_new_note))
        ex_new_note) = Some [AST_REFACTOR]"
    by (subst Trace_write_to_file_class [where aid = "''INT-001''" and c = "''- *todo*\<newline>''"])
       (simp_all add: b c write_to_file_effect_def)
  moreover have "map_option entry_classes (Trace_onPostExecute ex_host ex_fs_empty ex_new_note)
     = Some [INTENT_EVOLUTION]"
    by (subst Trace_write_to_file_class [where aid = "''INT-001''" and c = "''- *todo*\<newline>''"])
       (simp_all add: b ex_fs_empty_def classifyMutation_def)
  ultimately show ?thesis
    by (simp add: fileExistsAtPath_def ex_fs_empty_def)
qed


end
